theory Spec2Isabelle
  imports
    Complex_Main
    "HOL-Library.Word"
    "HOL-Library.Log_Nat"
    "HOL-Library.Char_ord"
    "HOL-Library.List_Lexorder"
    "HOL-Library.Product_Lexorder"
begin

unbundle bit_operations_syntax

section \<open>SHA-256 (FIPS 180-4), as \<open>hashlib.sha256(...).hexdigest()\<close> computes it\<close>

text \<open>
  Breathline.py calls \<open>hashlib.sha256\<close> on the UTF-8 bytes of a JSON text and reads the
  digest back as 64 lower-case hexadecimal characters. The hash works on 32-bit words with
  wrap-around addition; bytes are 8-bit words.
\<close>

type_synonym u32 = "32 word"
type_synonym byte = "8 word"

definition rotr :: "nat \<Rightarrow> u32 \<Rightarrow> u32" where
  "rotr n x = drop_bit n x OR push_bit (32 - n) x"

definition Ch :: "u32 \<Rightarrow> u32 \<Rightarrow> u32 \<Rightarrow> u32" where
  "Ch x y z = (x AND y) XOR (NOT x AND z)"

definition Maj :: "u32 \<Rightarrow> u32 \<Rightarrow> u32 \<Rightarrow> u32" where
  "Maj x y z = (x AND y) XOR (x AND z) XOR (y AND z)"

definition Sigma0 :: "u32 \<Rightarrow> u32" where
  "Sigma0 x = rotr 2 x XOR rotr 13 x XOR rotr 22 x"

definition Sigma1 :: "u32 \<Rightarrow> u32" where
  "Sigma1 x = rotr 6 x XOR rotr 11 x XOR rotr 25 x"

definition sigma0 :: "u32 \<Rightarrow> u32" where
  "sigma0 x = rotr 7 x XOR rotr 18 x XOR drop_bit 3 x"

definition sigma1 :: "u32 \<Rightarrow> u32" where
  "sigma1 x = rotr 17 x XOR rotr 19 x XOR drop_bit 10 x"

text \<open>The sixty-four round constants, in groups of four rounds, and the initial hash value.\<close>

definition K_00_03 :: "u32 list" where
  "K_00_03 = [0x428a2f98, 0x71374491, 0xb5c0fbcf, 0xe9b5dba5]"

definition K_04_07 :: "u32 list" where
  "K_04_07 = [0x3956c25b, 0x59f111f1, 0x923f82a4, 0xab1c5ed5]"

definition K_08_11 :: "u32 list" where
  "K_08_11 = [0xd807aa98, 0x12835b01, 0x243185be, 0x550c7dc3]"

definition K_12_15 :: "u32 list" where
  "K_12_15 = [0x72be5d74, 0x80deb1fe, 0x9bdc06a7, 0xc19bf174]"

definition K_16_19 :: "u32 list" where
  "K_16_19 = [0xe49b69c1, 0xefbe4786, 0x0fc19dc6, 0x240ca1cc]"

definition K_20_23 :: "u32 list" where
  "K_20_23 = [0x2de92c6f, 0x4a7484aa, 0x5cb0a9dc, 0x76f988da]"

definition K_24_27 :: "u32 list" where
  "K_24_27 = [0x983e5152, 0xa831c66d, 0xb00327c8, 0xbf597fc7]"

definition K_28_31 :: "u32 list" where
  "K_28_31 = [0xc6e00bf3, 0xd5a79147, 0x06ca6351, 0x14292967]"

definition K_32_35 :: "u32 list" where
  "K_32_35 = [0x27b70a85, 0x2e1b2138, 0x4d2c6dfc, 0x53380d13]"

definition K_36_39 :: "u32 list" where
  "K_36_39 = [0x650a7354, 0x766a0abb, 0x81c2c92e, 0x92722c85]"

definition K_40_43 :: "u32 list" where
  "K_40_43 = [0xa2bfe8a1, 0xa81a664b, 0xc24b8b70, 0xc76c51a3]"

definition K_44_47 :: "u32 list" where
  "K_44_47 = [0xd192e819, 0xd6990624, 0xf40e3585, 0x106aa070]"

definition K_48_51 :: "u32 list" where
  "K_48_51 = [0x19a4c116, 0x1e376c08, 0x2748774c, 0x34b0bcb5]"

definition K_52_55 :: "u32 list" where
  "K_52_55 = [0x391c0cb3, 0x4ed8aa4a, 0x5b9cca4f, 0x682e6ff3]"

definition K_56_59 :: "u32 list" where
  "K_56_59 = [0x748f82ee, 0x78a5636f, 0x84c87814, 0x8cc70208]"

definition K_60_63 :: "u32 list" where
  "K_60_63 = [0x90befffa, 0xa4506ceb, 0xbef9a3f7, 0xc67178f2]"

definition K256 :: "u32 list" where
  "K256 =
     K_00_03 @ K_04_07 @ K_08_11 @ K_12_15
     @ K_16_19 @ K_20_23 @ K_24_27 @ K_28_31
     @ K_32_35 @ K_36_39 @ K_40_43 @ K_44_47
     @ K_48_51 @ K_52_55 @ K_56_59 @ K_60_63"

type_synonym hstate = "u32 \<times> u32 \<times> u32 \<times> u32 \<times> u32 \<times> u32 \<times> u32 \<times> u32"

definition H0 :: hstate where
  "H0 = (0x6a09e667, 0xbb67ae85, 0x3c6ef372, 0xa54ff53a,
         0x510e527f, 0x9b05688c, 0x1f83d9ab, 0x5be0cd19)"

text \<open>
  One round. The message schedule is kept as a window of sixteen words, oldest first:
  round t consumes word t of the schedule at the front and appends word t + 16, computed
  from words t + 14, t + 9, t + 1 and t.
\<close>

fun round256 :: "hstate \<times> u32 list \<Rightarrow> u32 \<Rightarrow> hstate \<times> u32 list" where
  "round256 ((a, b, c, d, e, f, g, h), win) k =
     (let w = win ! 0;
          t1 = h + Sigma1 e + Ch e f g + k + w;
          t2 = Sigma0 a + Maj a b c;
          w16 = sigma1 (win ! 14) + win ! 9 + sigma0 (win ! 1) + w
      in ((t1 + t2, a, b, c, d + t1, e, f, g), tl win @ [w16]))"

fun add_state :: "hstate \<Rightarrow> hstate \<Rightarrow> hstate" where
  "add_state (a, b, c, d, e, f, g, h) (a', b', c', d', e', f', g', h') =
     (a + a', b + b', c + c', d + d', e + e', f + f', g + g', h + h')"

definition compress :: "hstate \<Rightarrow> u32 list \<Rightarrow> hstate" where
  "compress hs blk = add_state hs (fst (foldl round256 (hs, blk) K256))"

fun be32 :: "byte list \<Rightarrow> u32 list" where
  "be32 (a # b # c # d # rest) =
     (push_bit 24 (ucast a) OR push_bit 16 (ucast b) OR push_bit 8 (ucast c) OR ucast d) # be32 rest"
| "be32 _ = []"

definition be64 :: "64 word \<Rightarrow> byte list" where
  "be64 n = map (\<lambda>i. ucast (drop_bit i n)) [56, 48, 40, 32, 24, 16, 8, 0]"

text \<open>Padding: a 1 bit, zeros up to 56 modulo 64 bytes, the bit length as 64 bits.\<close>

definition pad :: "byte list \<Rightarrow> byte list" where
  "pad m = m @ [0x80] @ replicate ((119 - length m mod 64) mod 64) 0
             @ be64 (word_of_nat (8 * length m))"

fun blocks :: "u32 list \<Rightarrow> u32 list list" where
  "blocks (w0 # w1 # w2 # w3 # w4 # w5 # w6 # w7 # w8 # w9 # w10 # w11 # w12 # w13 # w14 # w15 # rest) =
     [w0, w1, w2, w3, w4, w5, w6, w7, w8, w9, w10, w11, w12, w13, w14, w15] # blocks rest"
| "blocks _ = []"

definition sha256 :: "byte list \<Rightarrow> hstate" where
  "sha256 m = foldl compress H0 (blocks (be32 (pad m)))"

definition hexdigit :: "nat \<Rightarrow> char" where
  "hexdigit n = ''0123456789abcdef'' ! n"

definition hex32 :: "u32 \<Rightarrow> string" where
  "hex32 w = map (\<lambda>i. hexdigit (unat (drop_bit i w AND 15))) [28, 24, 20, 16, 12, 8, 4, 0]"

fun hex_state :: "hstate \<Rightarrow> string" where
  "hex_state (a, b, c, d, e, f, g, h) = concat (map hex32 [a, b, c, d, e, f, g, h])"

definition sha256_hexdigest :: "byte list \<Rightarrow> string" where
  "sha256_hexdigest m = hex_state (sha256 m)"


section \<open>\<open>json.dumps(metadata, sort_keys=True).encode()\<close>\<close>

text \<open>
  A Python \<open>str\<close> is modelled as a \<open>string\<close>, one \<open>char\<close> per code point (so code
  points below 256). A \<open>Dict[str, str]\<close> is an association list in insertion order whose
  keys are distinct. With \<open>sort_keys=True\<close> the encoder sorts the list of
  \<open>(key, value)\<close> items (tuples compare lexicographically, strings by code point) and
  joins the items, each a quoted key, a colon, a space and a quoted value, with a comma and
  a space inside braces. The default \<open>ensure_ascii\<close> escapes every character outside the
  range from space to tilde, the double quote and the backslash.
\<close>

type_synonym py_dict = "(string \<times> string) list"

definition escape_char :: "char \<Rightarrow> string" where
  "escape_char c =
     (if c = CHR 0x5C then [CHR 0x5C, CHR 0x5C]
      else if c = CHR 0x22 then [CHR 0x5C, CHR 0x22]
      else if c = CHR 0x08 then [CHR 0x5C, CHR ''b'']
      else if c = CHR 0x0C then [CHR 0x5C, CHR ''f'']
      else if c = CHR 0x0A then [CHR 0x5C, CHR ''n'']
      else if c = CHR 0x0D then [CHR 0x5C, CHR ''r'']
      else if c = CHR 0x09 then [CHR 0x5C, CHR ''t'']
      else if CHR '' '' \<le> c \<and> c \<le> CHR ''~'' then [c]
      else [CHR 0x5C, CHR ''u'', CHR ''0'', CHR ''0'',
            hexdigit (of_char c div 16), hexdigit (of_char c mod 16)])"

definition json_string :: "string \<Rightarrow> string" where
  "json_string s = [CHR 0x22] @ concat (map escape_char s) @ [CHR 0x22]"

definition json_item :: "string \<times> string \<Rightarrow> string" where
  "json_item kv = json_string (fst kv) @ '': '' @ json_string (snd kv)"

fun join :: "string \<Rightarrow> string list \<Rightarrow> string" where
  "join sep [] = []"
| "join sep [x] = x"
| "join sep (x # y # ys) = x @ sep @ join sep (y # ys)"

definition json_dumps :: "py_dict \<Rightarrow> string" where
  "json_dumps d = ''{'' @ join '', '' (map json_item (sort d)) @ ''}''"

text \<open>\<open>str.encode()\<close>: UTF-8, one byte below 128 and two bytes from 128 to 255.\<close>

definition encode_char :: "char \<Rightarrow> byte list" where
  "encode_char c =
     (if (of_char c :: nat) < 128 then [of_char c]
      else [0xC0 OR drop_bit 6 (of_char c), 0x80 OR (of_char c AND 0x3F)])"

definition encode :: "string \<Rightarrow> byte list" where
  "encode s = concat (map encode_char s)"

text \<open>The expression both the constructor and the verifier evaluate.\<close>

definition metadata_digest :: "py_dict \<Rightarrow> string" where
  "metadata_digest d = sha256_hexdigest (encode (json_dumps d))"


section \<open>The NFT dataclass\<close>

record NFT =
  token_id :: string
  metadata :: py_dict
  signature :: string

text \<open>\<open>NFT(token_id=..., metadata=...)\<close>: \<open>__post_init__\<close> sets the signature.\<close>

definition NFT_init :: "string \<Rightarrow> py_dict \<Rightarrow> NFT" where
  "NFT_init tid md = \<lparr>token_id = tid, metadata = md, signature = metadata_digest md\<rparr>"


section \<open>Python floats\<close>

text \<open>
  A Python \<open>float\<close> is an IEEE 754 binary64 value: a sign with a magnitude, an infinity,
  or not-a-number. A finite value is kept as its sign (\<open>True\<close> for minus, so that the
  negative zero is \<open>Finite True 0\<close>) and its magnitude as an exact real. Every arithmetic
  operation computes the exact result and rounds it to the nearest representable value,
  ties to the even significand: 53 significant bits, the least exponent \<open>-1074\<close>, and
  infinity from \<open>2 ^ 1024\<close> on.
\<close>

datatype float64 = Finite bool real | Infinity bool | NaN

definition pow2 :: "int \<Rightarrow> real" where
  "pow2 e = (if 0 \<le> e then 2 ^ nat e else 1 / 2 ^ nat (- e))"

text \<open>The exponent of the leading bit of a positive number: \<open>2 ^ ilog2 x \<le> x < 2 ^ (ilog2 x + 1)\<close>.\<close>

definition ilog2 :: "real \<Rightarrow> int" where
  "ilog2 x = (if 1 \<le> x then bitlen \<lfloor>x\<rfloor> - 1 else - bitlen (\<lceil>1 / x\<rceil> - 1))"

definition round_half_even :: "real \<Rightarrow> int" where
  "round_half_even q =
     (let f = \<lfloor>q\<rfloor>; r = q - of_int f
      in if r < 1 / 2 then f else if 1 / 2 < r then f + 1 else if even f then f else f + 1)"

text \<open>Rounding a magnitude; \<open>None\<close> is the overflow to infinity.\<close>

definition round_mag :: "real \<Rightarrow> real option" where
  "round_mag x =
     (if x = 0 then Some 0
      else
        (let e = max (ilog2 x - 52) (- 1074);
             y = of_int (round_half_even (x / pow2 e)) * pow2 e
         in if 2 ^ 1024 \<le> y then None else Some y))"

definition mk_float :: "bool \<Rightarrow> real \<Rightarrow> float64" where
  "mk_float s m = (case round_mag m of None \<Rightarrow> Infinity s | Some y \<Rightarrow> Finite s y)"


fun float_value :: "float64 \<Rightarrow> real" where
  "float_value (Finite s m) = (if s then - m else m)"
| "float_value _ = 0"

text \<open>
  \<open>x + y\<close>. An exact sum of zero is \<open>+0.0\<close> unless both operands are \<open>-0.0\<close>;
  infinities of opposite sign give not-a-number.
\<close>

fun float_add :: "float64 \<Rightarrow> float64 \<Rightarrow> float64" where
  "float_add (Finite s a) (Finite t b) =
     (let v = float_value (Finite s a) + float_value (Finite t b)
      in if v = 0 then Finite (s \<and> t) 0 else mk_float (v < 0) \<bar>v\<bar>)"
| "float_add (Finite s a) (Infinity t) = Infinity t"
| "float_add (Infinity s) (Finite t b) = Infinity s"
| "float_add (Infinity s) (Infinity t) = (if s = t then Infinity s else NaN)"
| "float_add NaN y = NaN"
| "float_add x NaN = NaN"

text \<open>\<open>x / y\<close> raises \<open>ZeroDivisionError\<close> when \<open>y\<close> is a zero, whatever \<open>x\<close> is.\<close>

datatype py_error = ZeroDivisionError

fun float_div :: "float64 \<Rightarrow> float64 \<Rightarrow> py_error + float64" where
  "float_div x (Finite t b) =
     (if b = 0 then Inl ZeroDivisionError
      else Inr (case x of
                  Finite s a \<Rightarrow> mk_float (s \<noteq> t) (a / b)
                | Infinity s \<Rightarrow> Infinity (s \<noteq> t)
                | NaN \<Rightarrow> NaN))"
| "float_div x (Infinity t) =
     Inr (case x of Finite s a \<Rightarrow> Finite (s \<noteq> t) 0 | Infinity s \<Rightarrow> NaN | NaN \<Rightarrow> NaN)"
| "float_div x NaN = Inr NaN"

text \<open>\<open>x <= y\<close>: false whenever an operand is not-a-number.\<close>

fun float_le :: "float64 \<Rightarrow> float64 \<Rightarrow> bool" where
  "float_le (Finite s a) (Finite t b) = (float_value (Finite s a) \<le> float_value (Finite t b))"
| "float_le (Finite s a) (Infinity t) = (\<not> t)"
| "float_le (Infinity s) (Finite t b) = s"
| "float_le (Infinity s) (Infinity t) = (s \<or> \<not> t)"
| "float_le NaN y = False"
| "float_le x NaN = False"

text \<open>The conversion of a non-negative \<open>int\<close>, as in \<open>float / len(...)\<close>.\<close>

definition float_of_nat :: "nat \<Rightarrow> float64" where
  "float_of_nat n = mk_float False (of_nat n)"

text \<open>
  \<open>sum(values)\<close> starts from the integer 0 and adds the floats from left to right, each
  addition rounded; \<open>0 + x\<close> is computed as \<open>0.0 + x\<close>. On an empty sequence the result
  is the integer 0, which divides like \<open>0.0\<close>.
\<close>

definition py_sum :: "float64 list \<Rightarrow> float64" where
  "py_sum vs = foldl float_add (Finite False 0) vs"


section \<open>Program state and output\<close>

text \<open>
  The list bound to \<open>nfts\<close> in \<open>main\<close> is mutable in Python, so it is part of the
  state every function receives and returns. Everything the program does beyond computing
  is recorded in order in \<open>trace\<close>: each \<open>print\<close> and each \<open>time.sleep\<close>. Lines made
  only of strings are kept as text; lines that format a float or the clock are kept as
  structured events.
\<close>

type_synonym reading = "(string \<times> float64) list"

datatype event =
    Line string
  | CycleLine nat
  | FatalLine
  | UpdateLine reading
  | ThinkLine float64 string
  | ActNominal float64
  | ActWarning float64
  | BreathLine nat
  | Slept

record world =
  store :: "NFT list"
  trace :: "event list"

definition print :: "event \<Rightarrow> world \<Rightarrow> world" where
  "print e w = w\<lparr>trace := trace w @ [e]\<rparr>"


section \<open>\<open>cross_verify_nfts\<close>\<close>

definition mismatch_msg :: "string \<Rightarrow> event" where
  "mismatch_msg tid = Line (''[ERROR] NFT '' @ tid @ '' has mismatched signature.'')"

definition duplicate_msg :: "string \<Rightarrow> event" where
  "duplicate_msg tid = Line (''[ERROR] Duplicate signature detected for NFT '' @ tid @ ''.'')"

text \<open>The \<open>for\<close> loop, with the set \<open>seen_signatures\<close> as accumulator.\<close>

fun verify_loop :: "string set \<Rightarrow> NFT list \<Rightarrow> world \<Rightarrow> bool \<times> world" where
  "verify_loop seen_signatures [] w = (True, w)"
| "verify_loop seen_signatures (nft # rest) w =
     (let expected_sig = sha256_hexdigest (encode (json_dumps (metadata nft))) in
      if expected_sig \<noteq> signature nft then (False, print (mismatch_msg (token_id nft)) w)
      else if expected_sig \<in> seen_signatures then (False, print (duplicate_msg (token_id nft)) w)
      else verify_loop (insert expected_sig seen_signatures) rest w)"

definition cross_verify_nfts :: "NFT list \<Rightarrow> world \<Rightarrow> bool \<times> world" where
  "cross_verify_nfts nfts w = verify_loop {} nfts w"

text \<open>
  Vocabulary for the statements: a record is self-consistent when its stored signature is
  the digest of its metadata; a list is clean when every record is self-consistent and no
  two records carry the same signature.
\<close>

definition self_consistent :: "NFT \<Rightarrow> bool" where
  "self_consistent nft \<longleftrightarrow> signature nft = metadata_digest (metadata nft)"

definition clean :: "NFT list \<Rightarrow> bool" where
  "clean nfts \<longleftrightarrow> list_all self_consistent nfts \<and> distinct (map signature nfts)"


section \<open>The stages\<close>

text \<open>
  \<open>update\<close> draws three numbers from the random generator and rounds them; the three
  rounded values are the argument here. Each stage prints exactly one line per call.
\<close>

definition update :: "float64 \<times> float64 \<times> float64 \<Rightarrow> world \<Rightarrow> reading \<times> world" where
  "update draws w =
     (case draws of (t, h, p) \<Rightarrow>
        (let readings = [(''temperature'', t), (''humidity'', h), (''pressure'', p)]
         in (readings, print (UpdateLine readings) w)))"

text \<open>
  \<open>sum(readings.values()) / len(readings)\<close> in float arithmetic: the division raises
  \<open>ZeroDivisionError\<close> when the dictionary is empty, before anything is printed. The
  band test \<open>24.0 <= avg <= 26.0\<close> is made on the computed average.
\<close>

definition think :: "reading \<Rightarrow> world \<Rightarrow> py_error + ((string \<times> float64) \<times> world)" where
  "think readings w =
     (case float_div (py_sum (map snd readings)) (float_of_nat (length readings)) of
        Inl e \<Rightarrow> Inl e
      | Inr avg \<Rightarrow>
          (let status = (if float_le (Finite False 24) avg \<and> float_le avg (Finite False 26)
                         then ''normal'' else ''anomaly'')
           in Inr ((status, avg), print (ThinkLine avg status) w)))"

definition act :: "string \<Rightarrow> float64 \<Rightarrow> world \<Rightarrow> world" where
  "act status val w =
     (if status = ''normal'' then print (ActNominal val) w else print (ActWarning val) w)"

definition breath :: "nat \<Rightarrow> world \<Rightarrow> world" where
  "breath cycle w = print (BreathLine cycle) w"

definition sleep :: "world \<Rightarrow> world" where
  "sleep w = print Slept w"


section \<open>\<open>main\<close>\<close>

text \<open>
  The \<open>for\<close> loop of \<open>main\<close> over the cycle numbers. It ends either because the range is
  exhausted or through \<open>break\<close> after a failed verification; an exception of \<open>think\<close>
  would leave it. The verifier and the random draws of each cycle are parameters, so that
  the loop can be run with a stand-in verifier; \<open>main\<close> itself runs it with
  \<open>cross_verify_nfts\<close> on the three records it constructs.
\<close>

datatype halt = Completed | Aborted

type_synonym verifier = "nat \<Rightarrow> NFT list \<Rightarrow> world \<Rightarrow> bool \<times> world"

fun main_loop ::
  "verifier \<Rightarrow> (nat \<Rightarrow> float64 \<times> float64 \<times> float64) \<Rightarrow> nat list \<Rightarrow> world \<Rightarrow> py_error + (halt \<times> world)" where
  "main_loop verify draws [] w = Inr (Completed, w)"
| "main_loop verify draws (cycle # rest) w =
     (let w1 = print (CycleLine cycle) w;
          (ok, w2) = verify cycle (store w1) w1
      in if \<not> ok then Inr (Aborted, print FatalLine w2)
         else
           (let (readings, w3) = update (draws cycle) w2
            in case think readings w3 of
                 Inl e \<Rightarrow> Inl e
               | Inr ((status, val), w4) \<Rightarrow>
                   main_loop verify draws rest (sleep (breath cycle (act status val w4)))))"

definition MAX_CYCLES :: nat where
  "MAX_CYCLES = 5"

definition initial_nfts :: "NFT list" where
  "initial_nfts =
     [NFT_init ''nft1'' [(''owner'', ''alice''), (''asset'', ''artwork''), (''serial'', ''A123'')],
      NFT_init ''nft2'' [(''owner'', ''bob''), (''asset'', ''watch''), (''serial'', ''W456'')],
      NFT_init ''nft3'' [(''owner'', ''carol''), (''asset'', ''car''), (''serial'', ''C789'')]]"

definition orchestrator ::
  "verifier \<Rightarrow> (nat \<Rightarrow> float64 \<times> float64 \<times> float64) \<Rightarrow> py_error + (halt \<times> world)" where
  "orchestrator verify draws =
     main_loop verify draws [1..<MAX_CYCLES + 1] \<lparr>store = initial_nfts, trace = []\<rparr>"

definition main :: "(nat \<Rightarrow> float64 \<times> float64 \<times> float64) \<Rightarrow> py_error + (halt \<times> world)" where
  "main draws = orchestrator (\<lambda>cycle. cross_verify_nfts) draws"

text \<open>A stand-in verifier that prints nothing and answers \<open>ok cycle\<close>.\<close>

definition stub_verifier :: "(nat \<Rightarrow> bool) \<Rightarrow> verifier" where
  "stub_verifier ok cycle nfts w = (ok cycle, w)"

text \<open>Which stage printed a line; the stage calls of a run are read off its trace.\<close>

datatype stage = Sensing | Decision | Action | Heartbeat

fun stage_of :: "event \<Rightarrow> stage option" where
  "stage_of (UpdateLine r) = Some Sensing"
| "stage_of (ThinkLine a s) = Some Decision"
| "stage_of (ActNominal v) = Some Action"
| "stage_of (ActWarning v) = Some Action"
| "stage_of (BreathLine c) = Some Heartbeat"
| "stage_of _ = None"

definition stages :: "world \<Rightarrow> stage list" where
  "stages w = List.map_filter stage_of (trace w)"

definition heartbeats :: "world \<Rightarrow> nat list" where
  "heartbeats w = List.map_filter (\<lambda>e. case e of BreathLine c \<Rightarrow> Some c | _ \<Rightarrow> None) (trace w)"


text \<open>Concrete records and an empty initial state, used to exercise the statements.\<close>

definition w0 :: world where
  "w0 = \<lparr>store = [], trace = []\<rparr>"

definition alice_md :: py_dict where
  "alice_md = [(''owner'', ''alice''), (''asset'', ''artwork''), (''serial'', ''A123'')]"

definition rec_a :: NFT where
  "rec_a = NFT_init ''nft1'' alice_md"

definition rec_a_clone :: NFT where
  "rec_a_clone = NFT_init ''nft2'' alice_md"

definition rec_tampered :: NFT where
  "rec_tampered = \<lparr>token_id = ''nft0'', metadata = alice_md, signature = ''00''\<rparr>"

definition owner_first :: py_dict where
  "owner_first = [(''owner'', ''alice''), (''asset'', ''artwork'')]"

definition asset_first :: py_dict where
  "asset_first = [(''asset'', ''artwork''), (''owner'', ''alice'')]"

definition fixed_draws :: "nat \<Rightarrow> float64 \<times> float64 \<times> float64" where
  "fixed_draws cycle = (Finite False 25, Finite False 50, Finite False 1000)"

text \<open>
  Vocabulary for the statements about \<open>think\<close>: a real number is representable when
  rounding leaves its magnitude unchanged; \<open>sums_exact acc xs\<close> says that adding the
  numbers \<open>xs\<close> to \<open>acc\<close> one by one never leaves the representable numbers.
\<close>

definition representable :: "real \<Rightarrow> bool" where
  "representable v \<longleftrightarrow> round_mag \<bar>v\<bar> = Some \<bar>v\<bar>"




text \<open>What is observed of a finished run: how the loop ended, the stage calls in order,
  and the cycle numbers the heartbeat reported.\<close>

definition run_summary :: "py_error + (halt \<times> world) \<Rightarrow> (halt \<times> stage list \<times> nat list) option" where
  "run_summary r =
     (case r of Inl e \<Rightarrow> None | Inr (h, w) \<Rightarrow> Some (h, stages w, heartbeats w))"

definition always_ok :: "nat \<Rightarrow> bool" where
  "always_ok cycle = True"

definition fails_on_3 :: "nat \<Rightarrow> bool" where
  "fails_on_3 cycle = (cycle \<noteq> 3)"

definition tampered_world :: world where
  "tampered_world = \<lparr>store = [rec_tampered], trace = []\<rparr>"


section \<open>Facts about the digest\<close>

lemma length_hex32: "length (hex32 w) = 8"
  by (simp add: hex32_def)

lemma length_hex_state: "length (hex_state s) = 64"
  by (induction s rule: hex_state.induct) (simp add: length_hex32)

lemma length_metadata_digest: "length (metadata_digest d) = 64"
  by (simp add: metadata_digest_def sha256_hexdigest_def length_hex_state)

lemma self_consistent_NFT_init: "self_consistent (NFT_init tid md)"
  by (simp add: self_consistent_def NFT_init_def)


section \<open>The verifier\<close>

lemma verify_loop_clean:
  "list_all self_consistent nfts \<Longrightarrow> distinct (map signature nfts) \<Longrightarrow>
   seen \<inter> set (map signature nfts) = {} \<Longrightarrow>
   verify_loop seen (nfts @ rest) w = verify_loop (seen \<union> set (map signature nfts)) rest w"
proof (induction nfts arbitrary: seen)
  case Nil
  then show ?case by simp
next
  case (Cons nft nfts)
  from Cons.prems have sc: "signature nft = sha256_hexdigest (encode (json_dumps (metadata nft)))"
    by (simp add: self_consistent_def metadata_digest_def)
  from Cons.prems have fresh: "signature nft \<notin> seen"
    by auto
  from Cons.prems have rest_ok: "list_all self_consistent nfts" "distinct (map signature nfts)"
    "insert (signature nft) seen \<inter> set (map signature nfts) = {}"
    by auto
  have "verify_loop seen ((nft # nfts) @ rest) w
        = verify_loop (insert (signature nft) seen) (nfts @ rest) w"
    using sc fresh by simp
  also have "\<dots> = verify_loop (insert (signature nft) seen \<union> set (map signature nfts)) rest w"
    by (rule Cons.IH [OF rest_ok])
  finally show ?case by simp
qed

lemma cross_verify_clean_prefix:
  "clean pre \<Longrightarrow>
   cross_verify_nfts (pre @ rest) w = verify_loop (set (map signature pre)) rest w"
  using verify_loop_clean [of pre "{}" rest w]
  by (simp add: cross_verify_nfts_def clean_def)

lemma verify_loop_mismatch:
  "signature r \<noteq> metadata_digest (metadata r) \<Longrightarrow>
   verify_loop seen (r # post) w = (False, print (mismatch_msg (token_id r)) w)"
  by (auto simp: metadata_digest_def)

lemma verify_loop_duplicate:
  "signature r = metadata_digest (metadata r) \<Longrightarrow> signature r \<in> seen \<Longrightarrow>
   verify_loop seen (r # post) w = (False, print (duplicate_msg (token_id r)) w)"
  by (auto simp: metadata_digest_def)

lemma cross_verify_clean: "clean nfts \<Longrightarrow> cross_verify_nfts nfts w = (True, w)"
  using cross_verify_clean_prefix [of nfts "[]" w] by simp

lemma clean_append_left: "clean (pre @ post) \<Longrightarrow> clean pre"
  by (simp add: clean_def)

lemma not_digest_if_length: "length h \<noteq> 64 \<Longrightarrow> h \<noteq> metadata_digest d"
  using length_metadata_digest [of d] by auto

lemma print_neq: "e \<noteq> e' \<Longrightarrow> print e w \<noteq> print e' w"
proof
  assume "e \<noteq> e'" and "print e w = print e' w"
  then have "trace (print e w) = trace (print e' w)" by simp
  then have "e = e'" by (simp add: print_def)
  with \<open>e \<noteq> e'\<close> show False by simp
qed

lemma clean_rec_a: "clean [rec_a]"
  by (simp add: clean_def rec_a_def self_consistent_NFT_init)

lemma rec_tampered_mismatch: "signature rec_tampered \<noteq> metadata_digest (metadata rec_tampered)"
  by (rule not_digest_if_length) (simp add: rec_tampered_def)

text \<open>
  C1. The verifier walks the list in order. If every record before \<open>r\<close> is self-consistent
  and no two of them share a signature (so none of them violates either condition), then:
  when the recomputed digest of \<open>r\<close> differs from its stored signature the verifier
  reports the mismatch of \<open>r\<close>, also when that digest was seen before (the mismatch check
  comes first); when the digest matches and was seen before it reports the duplicate
  \<open>r\<close>. In both cases the result does not depend on the records after \<open>r\<close>: none of them
  is checked.
\<close>

theorem cross_verify_first_failure:
  assumes "clean pre"
  shows "(signature r \<noteq> metadata_digest (metadata r) \<longrightarrow>
            cross_verify_nfts (pre @ r # post) w
              = (False, print (mismatch_msg (token_id r)) w))
       \<and> (signature r = metadata_digest (metadata r) \<and> signature r \<in> set (map signature pre) \<longrightarrow>
            cross_verify_nfts (pre @ r # post) w
              = (False, print (duplicate_msg (token_id r)) w))"
proof -
  have walk: "cross_verify_nfts (pre @ r # post) w
              = verify_loop (set (map signature pre)) (r # post) w"
    using assms by (rule cross_verify_clean_prefix)
  show ?thesis
    unfolding walk
    using verify_loop_mismatch [of r "set (map signature pre)" post w]
          verify_loop_duplicate [of r "set (map signature pre)" post w]
    by blast
qed

theorem cross_verify_first_failure_witness:
  "clean [rec_a]
   \<and> cross_verify_nfts [rec_a, rec_tampered, rec_a_clone] w0
       = (False, print (mismatch_msg ''nft0'') w0)
   \<and> cross_verify_nfts [rec_a, rec_a_clone, rec_tampered] w0
       = (False, print (duplicate_msg ''nft2'') w0)"
proof -
  have dup: "signature rec_a_clone = metadata_digest (metadata rec_a_clone)
             \<and> signature rec_a_clone \<in> set (map signature [rec_a])"
    by (simp add: rec_a_clone_def rec_a_def NFT_init_def)
  have id0: "token_id rec_tampered = ''nft0''" and id2: "token_id rec_a_clone = ''nft2''"
    by (simp_all add: rec_tampered_def rec_a_clone_def NFT_init_def)
  from cross_verify_first_failure
         [OF clean_rec_a, where r = rec_tampered and post = "[rec_a_clone]" and w = w0]
       rec_tampered_mismatch
  have "cross_verify_nfts ([rec_a] @ rec_tampered # [rec_a_clone]) w0
        = (False, print (mismatch_msg (token_id rec_tampered)) w0)"
    by blast
  moreover
  from cross_verify_first_failure
         [OF clean_rec_a, where r = rec_a_clone and post = "[rec_tampered]" and w = w0] dup
  have "cross_verify_nfts ([rec_a] @ rec_a_clone # [rec_tampered]) w0
        = (False, print (duplicate_msg (token_id rec_a_clone)) w0)"
    by blast
  ultimately show ?thesis
    using clean_rec_a by (simp add: id0 id2)
qed

text \<open>
  C3. Take a list whose records are all self-consistent with pairwise distinct signatures,
  and put among them, at any position, a record whose stored signature has been replaced
  by any string \<open>h\<close> other than the digest of its metadata. The verifier returns \<open>False\<close>
  and reports the mismatch of that record's identifier.
\<close>

theorem cross_verify_tampered_signature:
  assumes "clean (pre @ post)"
      and "h \<noteq> metadata_digest (metadata r)"
  shows "cross_verify_nfts (pre @ r\<lparr>signature := h\<rparr> # post) w
           = (False, print (mismatch_msg (token_id r)) w)"
proof -
  have "clean pre"
    using assms(1) by (rule clean_append_left)
  then have "cross_verify_nfts (pre @ r\<lparr>signature := h\<rparr> # post) w
             = verify_loop (set (map signature pre)) (r\<lparr>signature := h\<rparr> # post) w"
    by (rule cross_verify_clean_prefix)
  also have "\<dots> = (False, print (mismatch_msg (token_id (r\<lparr>signature := h\<rparr>))) w)"
    by (rule verify_loop_mismatch) (simp add: assms(2))
  finally show ?thesis by simp
qed

theorem cross_verify_tampered_signature_witness:
  "clean ([rec_a] @ []) \<and> ''00'' \<noteq> metadata_digest (metadata rec_a_clone)
   \<and> cross_verify_nfts [rec_a, rec_a_clone\<lparr>signature := ''00''\<rparr>] w0
       = (False, print (mismatch_msg ''nft2'') w0)"
proof -
  have c: "clean ([rec_a] @ [])"
    using clean_rec_a by simp
  have h: "''00'' \<noteq> metadata_digest (metadata rec_a_clone)"
    by (rule not_digest_if_length) simp
  have "token_id rec_a_clone = ''nft2''"
    by (simp add: rec_a_clone_def NFT_init_def)
  with cross_verify_tampered_signature [OF c h, where w = w0] c h show ?thesis
    by simp
qed

text \<open>
  C4, as amended. Let two records with different identifiers carry the same metadata, both
  self-consistent, the second somewhere after the first, and let the records before the
  second one (the first one among them) be self-consistent with pairwise distinct
  signatures. Then the first occurrence is accepted, and the verifier returns \<open>False\<close>
  reporting the duplicate under the identifier of the second occurrence.
\<close>

theorem cross_verify_duplicate_metadata:
  assumes "token_id a \<noteq> token_id b"
      and "metadata a = metadata b"
      and "self_consistent a" and "self_consistent b"
      and "clean (pre @ a # mid)"
  shows "cross_verify_nfts (pre @ [a]) w = (True, w)
       \<and> cross_verify_nfts (pre @ a # mid @ b # post) w
           = (False, print (duplicate_msg (token_id b)) w)"
proof -
  have "clean (pre @ [a])"
    using clean_append_left [of "pre @ [a]" mid] assms(5) by simp
  then have first: "cross_verify_nfts (pre @ [a]) w = (True, w)"
    by (rule cross_verify_clean)
  have same: "signature b = signature a"
    using assms(2-4) by (simp add: self_consistent_def)
  have "cross_verify_nfts ((pre @ a # mid) @ b # post) w
        = verify_loop (set (map signature (pre @ a # mid))) (b # post) w"
    using assms(5) by (rule cross_verify_clean_prefix)
  also have "\<dots> = (False, print (duplicate_msg (token_id b)) w)"
    using assms(4) same by (intro verify_loop_duplicate) (simp_all add: self_consistent_def)
  finally show ?thesis
    using first by simp
qed

theorem cross_verify_duplicate_metadata_witness:
  "token_id rec_a \<noteq> token_id rec_a_clone \<and> metadata rec_a = metadata rec_a_clone
   \<and> self_consistent rec_a \<and> self_consistent rec_a_clone \<and> clean ([] @ rec_a # [])
   \<and> cross_verify_nfts [rec_a] w0 = (True, w0)
   \<and> cross_verify_nfts [rec_a, rec_a_clone] w0 = (False, print (duplicate_msg ''nft2'') w0)"
proof -
  have ids: "token_id rec_a \<noteq> token_id rec_a_clone"
    by (simp add: rec_a_def rec_a_clone_def NFT_init_def)
  have md: "metadata rec_a = metadata rec_a_clone"
    by (simp add: rec_a_def rec_a_clone_def NFT_init_def)
  have sa: "self_consistent rec_a" and sb: "self_consistent rec_a_clone"
    by (simp_all add: rec_a_def rec_a_clone_def self_consistent_NFT_init)
  have c: "clean ([] @ rec_a # [])"
    using clean_rec_a by simp
  have "token_id rec_a_clone = ''nft2''"
    by (simp add: rec_a_clone_def NFT_init_def)
  with cross_verify_duplicate_metadata [OF ids md sa sb c, where post = "[]" and w = w0]
       ids md sa sb c
  show ?thesis by simp
qed

text \<open>
  C4 as stated does not hold for every store that contains such a pair: when an earlier
  record fails its own check the verifier stops there. Here the tampered record \<open>nft0\<close>
  precedes the pair \<open>nft1\<close>, \<open>nft2\<close>; the verifier reports the mismatch of \<open>nft0\<close>
  and not the duplicate \<open>nft2\<close>.
\<close>

theorem cross_verify_duplicate_metadata_counterexample:
  "token_id rec_a \<noteq> token_id rec_a_clone \<and> metadata rec_a = metadata rec_a_clone
   \<and> self_consistent rec_a \<and> self_consistent rec_a_clone
   \<and> cross_verify_nfts [rec_tampered, rec_a, rec_a_clone] w0
       = (False, print (mismatch_msg ''nft0'') w0)
   \<and> cross_verify_nfts [rec_tampered, rec_a, rec_a_clone] w0
       \<noteq> (False, print (duplicate_msg ''nft2'') w0)"
proof -
  have ids: "token_id rec_a \<noteq> token_id rec_a_clone"
    by (simp add: rec_a_def rec_a_clone_def NFT_init_def)
  have md: "metadata rec_a = metadata rec_a_clone"
    by (simp add: rec_a_def rec_a_clone_def NFT_init_def)
  have sa: "self_consistent rec_a" and sb: "self_consistent rec_a_clone"
    by (simp_all add: rec_a_def rec_a_clone_def self_consistent_NFT_init)
  have run: "cross_verify_nfts [rec_tampered, rec_a, rec_a_clone] w0
             = (False, print (mismatch_msg ''nft0'') w0)"
    using verify_loop_mismatch [OF rec_tampered_mismatch, of "{}" "[rec_a, rec_a_clone]" w0]
    by (simp add: cross_verify_nfts_def rec_tampered_def)
  have "print (mismatch_msg ''nft0'') w0 \<noteq> print (duplicate_msg ''nft2'') w0"
    by (rule print_neq) (simp add: mismatch_msg_def duplicate_msg_def)
  with run ids md sa sb show ?thesis by simp
qed

text \<open>
  C10. Applied to an empty list the verifier returns \<open>True\<close>, prints nothing and leaves the
  state as it was.
\<close>

theorem cross_verify_nfts_empty: "cross_verify_nfts [] w = (True, w)"
  by (simp add: cross_verify_nfts_def)


section \<open>The digest does not depend on insertion order\<close>

lemma sort_distinct_set_eq:
  fixes xs ys :: "'a::linorder list"
  assumes "distinct xs" and "distinct ys" and "set xs = set ys"
  shows "sort xs = sort ys"
proof -
  have "sort xs = sorted_list_of_set (set xs)"
    using assms(1) by (simp add: sorted_list_of_set_sort_remdups distinct_remdups_id)
  also have "\<dots> = sorted_list_of_set (set ys)"
    using assms(3) by simp
  also have "\<dots> = sort ys"
    using assms(2) by (simp add: sorted_list_of_set_sort_remdups distinct_remdups_id)
  finally show ?thesis .
qed

lemma distinct_keys_items: "distinct (map fst d) \<Longrightarrow> distinct d"
  by (simp add: distinct_map)

text \<open>
  C5. Two dictionaries with string keys and string values that hold the same key-value
  pairs, in whatever insertion order, have the same digest, and so records constructed
  from them carry the same signature.
\<close>

theorem digest_insertion_order:
  assumes "distinct (map fst d1)" and "distinct (map fst d2)" and "set d1 = set d2"
  shows "metadata_digest d1 = metadata_digest d2
       \<and> signature (NFT_init tid1 d1) = signature (NFT_init tid2 d2)"
proof -
  have "sort d1 = sort d2"
    using assms by (intro sort_distinct_set_eq distinct_keys_items)
  then have "json_dumps d1 = json_dumps d2"
    by (simp add: json_dumps_def)
  then show ?thesis
    by (simp add: metadata_digest_def NFT_init_def)
qed

theorem digest_insertion_order_witness:
  "distinct (map fst owner_first) \<and> distinct (map fst asset_first)
   \<and> set owner_first = set asset_first \<and> owner_first \<noteq> asset_first
   \<and> metadata_digest owner_first = metadata_digest asset_first
   \<and> signature (NFT_init ''nft1'' owner_first) = signature (NFT_init ''nft1'' asset_first)"
proof -
  have d1: "distinct (map fst owner_first)" and d2: "distinct (map fst asset_first)"
    by (simp_all add: owner_first_def asset_first_def)
  have eq: "set owner_first = set asset_first"
    by (auto simp: owner_first_def asset_first_def)
  have ne: "owner_first \<noteq> asset_first"
    by (simp add: owner_first_def asset_first_def)
  from digest_insertion_order [OF d1 d2 eq, of "''nft1''" "''nft1''"] d1 d2 eq ne
  show ?thesis by simp
qed


section \<open>Float arithmetic\<close>

lemma pow2_pos: "0 < pow2 e"
  by (simp add: pow2_def)

lemma pow2_mono_52: "0 \<le> k \<Longrightarrow> pow2 (k - 52) \<le> pow2 k"
proof (cases "0 \<le> k - 52")
  case True
  assume "0 \<le> k"
  with True have "(2::real) ^ nat (k - 52) \<le> 2 ^ nat k"
    by (intro power_increasing) simp_all
  with True \<open>0 \<le> k\<close> show ?thesis
    by (simp add: pow2_def)
next
  case False
  assume "0 \<le> k"
  have "1 / (2::real) ^ nat (- (k - 52)) \<le> 1"
    by simp
  also have "\<dots> \<le> 2 ^ nat k"
    by simp
  finally show ?thesis
    using False \<open>0 \<le> k\<close> by (simp add: pow2_def)
qed

lemma round_half_even_ge_floor: "\<lfloor>q\<rfloor> \<le> round_half_even q"
  by (simp add: round_half_even_def Let_def)

lemma ilog2_ge1:
  assumes "1 \<le> x"
  shows "0 \<le> ilog2 x" and "pow2 (ilog2 x) \<le> x"
proof -
  have fl: "0 < \<lfloor>x\<rfloor>"
    using assms by simp
  from bitlen_bounds [OF fl] have lo: "2 ^ nat (bitlen \<lfloor>x\<rfloor> - 1) \<le> \<lfloor>x\<rfloor>"
    by simp
  have "bitlen \<lfloor>x\<rfloor> \<noteq> 0"
    using fl by (simp add: bitlen_eq_zero_iff)
  with bitlen_nonneg [of "\<lfloor>x\<rfloor>"] have pos: "0 \<le> bitlen \<lfloor>x\<rfloor> - 1"
    by simp
  show "0 \<le> ilog2 x"
    using assms pos by (simp add: ilog2_def)
  have "(2::real) ^ nat (bitlen \<lfloor>x\<rfloor> - 1) = of_int (2 ^ nat (bitlen \<lfloor>x\<rfloor> - 1))"
    by simp
  also have "\<dots> \<le> of_int \<lfloor>x\<rfloor>"
    using lo by (simp only: of_int_le_iff)
  also have "\<dots> \<le> x"
    by simp
  finally show "pow2 (ilog2 x) \<le> x"
    using assms pos by (simp add: ilog2_def pow2_def)
qed

lemma round_mag_ge1:
  assumes "1 \<le> x"
  shows "round_mag x \<noteq> Some 0"
proof -
  define e where "e = max (ilog2 x - 52) (- 1074)"
  define y where "y = of_int (round_half_even (x / pow2 e)) * pow2 e"
  have e: "e = ilog2 x - 52"
    using ilog2_ge1(1) [OF assms] by (simp add: e_def)
  have "pow2 e \<le> pow2 (ilog2 x)"
    unfolding e using ilog2_ge1(1) [OF assms] by (rule pow2_mono_52)
  also have "\<dots> \<le> x"
    using assms by (rule ilog2_ge1(2))
  finally have "1 \<le> x / pow2 e"
    using pow2_pos [of e] by (simp add: le_divide_eq)
  then have "1 \<le> \<lfloor>x / pow2 e\<rfloor>"
    by (simp add: le_floor_iff)
  from this round_half_even_ge_floor [of "x / pow2 e"] have "0 < round_half_even (x / pow2 e)"
    by linarith
  then have "0 < y"
    using pow2_pos [of e] by (simp add: y_def)
  moreover have "round_mag x = (if 2 ^ 1024 \<le> y then None else Some y)"
    using assms by (simp add: round_mag_def Let_def e_def y_def)
  ultimately show ?thesis
    by simp
qed

lemma float_of_nat_0: "float_of_nat 0 = Finite False 0"
  by (simp add: float_of_nat_def mk_float_def round_mag_def)

lemma float_of_nat_pos:
  assumes "0 < n"
  shows "float_of_nat n = Infinity False \<or> (\<exists>m. m \<noteq> 0 \<and> float_of_nat n = Finite False m)"
proof -
  have "1 \<le> (of_nat n :: real)"
    using assms by simp
  then have "round_mag (of_nat n) \<noteq> Some 0"
    by (rule round_mag_ge1)
  then show ?thesis
    by (cases "round_mag (of_nat n)") (auto simp: float_of_nat_def mk_float_def)
qed

lemma float_div_total:
  assumes "d = Infinity False \<or> (\<exists>m. m \<noteq> 0 \<and> d = Finite False m)"
  shows "\<exists>q. float_div x d = Inr q"
  using assms by auto

lemma think_empty: "think [] w = Inl ZeroDivisionError"
  by (simp add: think_def float_of_nat_0)

lemma think_nonempty:
  assumes "readings \<noteq> []"
  shows "\<exists>avg. float_div (py_sum (map snd readings)) (float_of_nat (length readings)) = Inr avg
           \<and> think readings w
               = Inr ((if float_le (Finite False 24) avg \<and> float_le avg (Finite False 26)
                       then ''normal'' else ''anomaly'', avg),
                      print (ThinkLine avg
                               (if float_le (Finite False 24) avg \<and> float_le avg (Finite False 26)
                                then ''normal'' else ''anomaly'')) w)"
proof -
  have "0 < length readings"
    using assms by simp
  from float_div_total [OF float_of_nat_pos [OF this]]
  obtain avg where
    "float_div (py_sum (map snd readings)) (float_of_nat (length readings)) = Inr avg"
    by blast
  then show ?thesis
    by (simp add: think_def Let_def)
qed





lemmas float_eval =
  py_sum_def float_of_nat_def mk_float_def round_mag_def ilog2_def round_half_even_def
  pow2_def representable_def Let_def compute_bitlen


section \<open>The decision stage\<close>




text \<open>
  C7. \<open>think\<close> raises \<open>ZeroDivisionError\<close> exactly when the reading is empty; on every
  non-empty reading it returns a result.
\<close>

theorem think_error_iff_empty:
  "(think readings w = Inl ZeroDivisionError \<longleftrightarrow> readings = [])
   \<and> ((\<exists>e. think readings w = Inl e) \<longleftrightarrow> readings = [])
   \<and> (readings \<noteq> [] \<longrightarrow> (\<exists>res w'. think readings w = Inr (res, w')))"
proof (cases "readings = []")
  case True
  then show ?thesis
    by (simp add: think_empty)
next
  case False
  from think_nonempty [OF False, of w] obtain res w' where "think readings w = Inr (res, w')"
    by blast
  with False show ?thesis
    by simp
qed

theorem think_error_iff_empty_witness:
  "think [] w0 = Inl ZeroDivisionError
   \<and> [(''temperature'', Finite False 25)] \<noteq> []
   \<and> think [(''temperature'', Finite False 25)] w0 \<noteq> Inl ZeroDivisionError
   \<and> (\<exists>res w'. think [(''temperature'', Finite False 25)] w0 = Inr (res, w'))"
  using think_error_iff_empty [of "[]" w0]
        think_error_iff_empty [of "[(''temperature'', Finite False 25)]" w0]
  by simp


section \<open>The loop of \<open>main\<close>\<close>

lemma store_print: "store (print e w) = store w"
  by (simp add: print_def)

lemma stages_print:
  "stages (print e w) = stages w @ (case stage_of e of None \<Rightarrow> [] | Some s \<Rightarrow> [s])"
  by (simp add: stages_def print_def List.map_filter_def split: option.split)

lemma heartbeats_print:
  "heartbeats (print e w)
     = heartbeats w @ (case e of BreathLine c \<Rightarrow> [c] | _ \<Rightarrow> [])"
  by (simp add: heartbeats_def print_def List.map_filter_def split: event.split)

lemma cycle_body:
  "\<exists>readings w3 status val w4.
     update d w = (readings, w3) \<and> think readings w3 = Inr ((status, val), w4)
     \<and> store (sleep (breath c (act status val w4))) = store w
     \<and> stages (sleep (breath c (act status val w4)))
         = stages w @ [Sensing, Decision, Action, Heartbeat]
     \<and> heartbeats (sleep (breath c (act status val w4))) = heartbeats w @ [c]"
proof -
  obtain t h p where d: "d = (t, h, p)"
    by (cases d)
  define readings where "readings = [(''temperature'', t), (''humidity'', h), (''pressure'', p)]"
  define w3 where "w3 = print (UpdateLine readings) w"
  have up: "update d w = (readings, w3)"
    by (simp add: update_def d readings_def w3_def Let_def)
  have "readings \<noteq> []"
    by (simp add: readings_def)
  from think_nonempty [OF this, of w3] obtain val where
    run: "think readings w3
            = Inr ((if float_le (Finite False 24) val \<and> float_le val (Finite False 26)
                    then ''normal'' else ''anomaly'', val),
                   print (ThinkLine val
                            (if float_le (Finite False 24) val \<and> float_le val (Finite False 26)
                             then ''normal'' else ''anomaly'')) w3)"
    by blast
  define status where
    "status = (if float_le (Finite False 24) val \<and> float_le val (Finite False 26)
               then ''normal'' else ''anomaly'')"
  define w4 where "w4 = print (ThinkLine val status) w3"
  have th: "think readings w3 = Inr ((status, val), w4)"
    using run by (simp add: status_def w4_def)
  have st: "store (sleep (breath c (act status val w4))) = store w"
    by (simp add: sleep_def breath_def act_def w4_def w3_def store_print)
  have sg: "stages (sleep (breath c (act status val w4)))
            = stages w @ [Sensing, Decision, Action, Heartbeat]"
    by (simp add: sleep_def breath_def act_def w4_def w3_def stages_print)
  have hb: "heartbeats (sleep (breath c (act status val w4))) = heartbeats w @ [c]"
    by (simp add: sleep_def breath_def act_def w4_def w3_def heartbeats_print)
  from up th st sg hb show ?thesis
    by blast
qed

lemma main_loop_step_ok:
  assumes "verify c (store w) (print (CycleLine c) w) = (True, w2)"
  shows "\<exists>w'. main_loop verify draws (c # rest) w = main_loop verify draws rest w'
           \<and> store w' = store w2
           \<and> stages w' = stages w2 @ [Sensing, Decision, Action, Heartbeat]
           \<and> heartbeats w' = heartbeats w2 @ [c]"
proof -
  obtain readings w3 status val w4 where
    up: "update (draws c) w2 = (readings, w3)"
    and th: "think readings w3 = Inr ((status, val), w4)"
    and st: "store (sleep (breath c (act status val w4))) = store w2"
    and sg: "stages (sleep (breath c (act status val w4)))
             = stages w2 @ [Sensing, Decision, Action, Heartbeat]"
    and hb: "heartbeats (sleep (breath c (act status val w4))) = heartbeats w2 @ [c]"
    using cycle_body [of "draws c" w2 c] by blast
  have "main_loop verify draws (c # rest) w
        = main_loop verify draws rest (sleep (breath c (act status val w4)))"
    using assms up th by (simp add: store_print)
  with st sg hb show ?thesis by blast
qed

lemma main_loop_step_fail:
  assumes "verify c (store w) (print (CycleLine c) w) = (False, w2)"
  shows "main_loop verify draws (c # rest) w = Inr (Aborted, print FatalLine w2)"
  using assms by (simp add: store_print)

lemma stub_cycle_ok:
  assumes "ok c"
  shows "\<exists>w'. main_loop (stub_verifier ok) draws (c # rest) w
                 = main_loop (stub_verifier ok) draws rest w'
           \<and> stages w' = stages w @ [Sensing, Decision, Action, Heartbeat]
           \<and> heartbeats w' = heartbeats w @ [c]"
proof -
  have "stub_verifier ok c (store w) (print (CycleLine c) w) = (True, print (CycleLine c) w)"
    using assms by (simp add: stub_verifier_def)
  from main_loop_step_ok
         [where verify = "stub_verifier ok" and c = c and w = w and draws = draws
            and rest = rest, OF this]
  obtain w' where
    "main_loop (stub_verifier ok) draws (c # rest) w = main_loop (stub_verifier ok) draws rest w'"
    and "stages w' = stages (print (CycleLine c) w) @ [Sensing, Decision, Action, Heartbeat]"
    and "heartbeats w' = heartbeats (print (CycleLine c) w) @ [c]"
    by blast
  then have
    "main_loop (stub_verifier ok) draws (c # rest) w = main_loop (stub_verifier ok) draws rest w'
     \<and> stages w' = stages w @ [Sensing, Decision, Action, Heartbeat]
     \<and> heartbeats w' = heartbeats w @ [c]"
    by (simp add: stages_print heartbeats_print del: main_loop.simps)
  then show ?thesis ..
qed

lemma stub_cycle_fail:
  assumes "\<not> ok c"
  shows "main_loop (stub_verifier ok) draws (c # rest) w
           = Inr (Aborted, print FatalLine (print (CycleLine c) w))"
proof -
  have "stub_verifier ok c (store w) (print (CycleLine c) w) = (False, print (CycleLine c) w)"
    using assms by (simp add: stub_verifier_def)
  then show ?thesis by (rule main_loop_step_fail)
qed

lemma cycle_range: "[1..<MAX_CYCLES + 1] = [1, 2, 3, 4, 5]"
  by (simp add: MAX_CYCLES_def upt_rec)

lemma stages_initial: "stages \<lparr>store = xs, trace = []\<rparr> = []"
  and heartbeats_initial: "heartbeats \<lparr>store = xs, trace = []\<rparr> = []"
  by (simp_all add: stages_def heartbeats_def List.map_filter_def)

text \<open>
  C8. With a verifier that succeeds on each of the five cycles the loop calls the four
  stages five times, in the order sensing, decision, action, heartbeat within each cycle,
  the heartbeat reporting cycles 1 to 5, and ends because the range is exhausted. With a
  verifier that succeeds on cycles 1 and 2 and fails on cycle 3 the stages are called
  twice, for cycles 1 and 2, and the loop is left through \<open>break\<close>.
\<close>

theorem orchestrator_stage_calls:
  "((\<forall>c \<in> {1..5}. ok c) \<longrightarrow>
      run_summary (orchestrator (stub_verifier ok) draws)
        = Some (Completed,
                concat (replicate 5 [Sensing, Decision, Action, Heartbeat]),
                [1, 2, 3, 4, 5]))
   \<and> (ok 1 \<and> ok 2 \<and> \<not> ok 3 \<longrightarrow>
      run_summary (orchestrator (stub_verifier ok) draws)
        = Some (Aborted,
                concat (replicate 2 [Sensing, Decision, Action, Heartbeat]),
                [1, 2]))"
proof (intro conjI impI)
  let ?v = "stub_verifier ok"
  let ?w0 = "\<lparr>store = initial_nfts, trace = []\<rparr>"
  assume all: "\<forall>c \<in> {1..5}. ok c"
  then have ok: "ok 1" "ok 2" "ok 3" "ok 4" "ok 5"
    by simp_all
  obtain w1 where r1: "main_loop ?v draws [1, 2, 3, 4, 5] ?w0 = main_loop ?v draws [2, 3, 4, 5] w1"
    and s1: "stages w1 = stages ?w0 @ [Sensing, Decision, Action, Heartbeat]"
    and h1: "heartbeats w1 = heartbeats ?w0 @ [1]"
    using stub_cycle_ok [where ok = ok and c = 1 and draws = draws and rest = "[2, 3, 4, 5]" and w = "?w0", OF ok(1)] by blast
  obtain w2 where r2: "main_loop ?v draws [2, 3, 4, 5] w1 = main_loop ?v draws [3, 4, 5] w2"
    and s2: "stages w2 = stages w1 @ [Sensing, Decision, Action, Heartbeat]"
    and h2: "heartbeats w2 = heartbeats w1 @ [2]"
    using stub_cycle_ok [where ok = ok and c = 2 and draws = draws and rest = "[3, 4, 5]" and w = "w1", OF ok(2)] by blast
  obtain w3 where r3: "main_loop ?v draws [3, 4, 5] w2 = main_loop ?v draws [4, 5] w3"
    and s3: "stages w3 = stages w2 @ [Sensing, Decision, Action, Heartbeat]"
    and h3: "heartbeats w3 = heartbeats w2 @ [3]"
    using stub_cycle_ok [where ok = ok and c = 3 and draws = draws and rest = "[4, 5]" and w = "w2", OF ok(3)] by blast
  obtain w4 where r4: "main_loop ?v draws [4, 5] w3 = main_loop ?v draws [5] w4"
    and s4: "stages w4 = stages w3 @ [Sensing, Decision, Action, Heartbeat]"
    and h4: "heartbeats w4 = heartbeats w3 @ [4]"
    using stub_cycle_ok [where ok = ok and c = 4 and draws = draws and rest = "[5]" and w = "w3", OF ok(4)] by blast
  obtain w5 where r5: "main_loop ?v draws [5] w4 = main_loop ?v draws [] w5"
    and s5: "stages w5 = stages w4 @ [Sensing, Decision, Action, Heartbeat]"
    and h5: "heartbeats w5 = heartbeats w4 @ [5]"
    using stub_cycle_ok [where ok = ok and c = 5 and draws = draws and rest = "[]" and w = "w4", OF ok(5)] by blast
  have "orchestrator ?v draws = Inr (Completed, w5)"
    unfolding orchestrator_def cycle_range by (simp only: r1 r2 r3 r4 r5 main_loop.simps(1))
  moreover have "stages w5 = concat (replicate 5 [Sensing, Decision, Action, Heartbeat])"
    by (simp add: s5 s4 s3 s2 s1 stages_initial numeral_eq_Suc)
  moreover have "heartbeats w5 = [1, 2, 3, 4, 5]"
    by (simp add: h5 h4 h3 h2 h1 heartbeats_initial)
  ultimately show "run_summary (orchestrator ?v draws)
        = Some (Completed, concat (replicate 5 [Sensing, Decision, Action, Heartbeat]),
                [1, 2, 3, 4, 5])"
    by (simp add: run_summary_def)
next
  let ?v = "stub_verifier ok"
  let ?w0 = "\<lparr>store = initial_nfts, trace = []\<rparr>"
  assume "ok 1 \<and> ok 2 \<and> \<not> ok 3"
  then have ok: "ok 1" "ok 2" and bad: "\<not> ok 3"
    by simp_all
  obtain w1 where r1: "main_loop ?v draws [1, 2, 3, 4, 5] ?w0 = main_loop ?v draws [2, 3, 4, 5] w1"
    and s1: "stages w1 = stages ?w0 @ [Sensing, Decision, Action, Heartbeat]"
    and h1: "heartbeats w1 = heartbeats ?w0 @ [1]"
    using stub_cycle_ok [where ok = ok and c = 1 and draws = draws and rest = "[2, 3, 4, 5]" and w = "?w0", OF ok(1)] by blast
  obtain w2 where r2: "main_loop ?v draws [2, 3, 4, 5] w1 = main_loop ?v draws [3, 4, 5] w2"
    and s2: "stages w2 = stages w1 @ [Sensing, Decision, Action, Heartbeat]"
    and h2: "heartbeats w2 = heartbeats w1 @ [2]"
    using stub_cycle_ok [where ok = ok and c = 2 and draws = draws and rest = "[3, 4, 5]" and w = "w1", OF ok(2)] by blast
  have r3: "main_loop ?v draws [3, 4, 5] w2
            = Inr (Aborted, print FatalLine (print (CycleLine 3) w2))"
    using stub_cycle_fail [where ok = ok and c = 3, OF bad] by simp
  have "orchestrator ?v draws = Inr (Aborted, print FatalLine (print (CycleLine 3) w2))"
    unfolding orchestrator_def cycle_range by (simp only: r1 r2 r3)
  moreover have "stages (print FatalLine (print (CycleLine 3) w2))
                 = concat (replicate 2 [Sensing, Decision, Action, Heartbeat])"
    by (simp add: stages_print s2 s1 stages_initial numeral_eq_Suc)
  moreover have "heartbeats (print FatalLine (print (CycleLine 3) w2)) = [1, 2]"
    by (simp add: heartbeats_print h2 h1 heartbeats_initial)
  ultimately show "run_summary (orchestrator ?v draws)
        = Some (Aborted, concat (replicate 2 [Sensing, Decision, Action, Heartbeat]), [1, 2])"
    by (simp add: run_summary_def)
qed

theorem orchestrator_stage_calls_witness:
  "always_ok 1 \<and> always_ok 2 \<and> always_ok 3 \<and> always_ok 4 \<and> always_ok 5
   \<and> run_summary (orchestrator (stub_verifier always_ok) fixed_draws)
       = Some (Completed,
               [Sensing, Decision, Action, Heartbeat, Sensing, Decision, Action, Heartbeat,
                Sensing, Decision, Action, Heartbeat, Sensing, Decision, Action, Heartbeat,
                Sensing, Decision, Action, Heartbeat],
               [1, 2, 3, 4, 5])
   \<and> fails_on_3 1 \<and> fails_on_3 2 \<and> \<not> fails_on_3 3
   \<and> run_summary (orchestrator (stub_verifier fails_on_3) fixed_draws)
       = Some (Aborted,
               [Sensing, Decision, Action, Heartbeat, Sensing, Decision, Action, Heartbeat],
               [1, 2])"
proof -
  have a: "\<forall>c \<in> {1..5}. always_ok c"
    by (simp add: always_ok_def)
  have f: "fails_on_3 1 \<and> fails_on_3 2 \<and> \<not> fails_on_3 3"
    by (simp add: fails_on_3_def)
  from orchestrator_stage_calls [of always_ok fixed_draws]
       orchestrator_stage_calls [of fails_on_3 fixed_draws] a f
  show ?thesis
    by (simp add: numeral_eq_Suc always_ok_def)
qed


section \<open>Records are never modified\<close>

lemma verify_loop_store: "store (snd (verify_loop seen nfts w)) = store w"
  by (induction nfts arbitrary: seen) (simp_all add: Let_def store_print)

lemma cross_verify_store: "store (snd (cross_verify_nfts nfts w)) = store w"
  by (simp add: cross_verify_nfts_def verify_loop_store)

lemma main_loop_store:
  assumes keeps: "\<And>c nfts w. store (snd (verify c nfts w)) = store w"
  shows "\<exists>h w'. main_loop verify draws cycles w = Inr (h, w') \<and> store w' = store w"
proof (induction cycles arbitrary: w)
  case Nil
  show ?case by simp
next
  case (Cons c cycles)
  obtain ok w2 where v: "verify c (store w) (print (CycleLine c) w) = (ok, w2)"
    by (cases "verify c (store w) (print (CycleLine c) w)")
  have s2: "store w2 = store w"
    using keeps [of c "store w" "print (CycleLine c) w"] v by (simp add: store_print)
  show ?case
  proof (cases ok)
    case True
    with v have "verify c (store w) (print (CycleLine c) w) = (True, w2)"
      by simp
    from main_loop_step_ok
           [where verify = verify and c = c and w = w and draws = draws and rest = cycles,
            OF this]
    obtain w3 where
      step: "main_loop verify draws (c # cycles) w = main_loop verify draws cycles w3"
      and s3: "store w3 = store w2"
      by blast
    from Cons.IH [of w3] obtain h w' where
      "main_loop verify draws cycles w3 = Inr (h, w')" and "store w' = store w3"
      by blast
    with step s3 s2 show ?thesis
      by (simp del: main_loop.simps)
  next
    case False
    with v have "verify c (store w) (print (CycleLine c) w) = (False, w2)"
      by simp
    from main_loop_step_fail
           [where verify = verify and c = c and w = w and draws = draws and rest = cycles,
            OF this]
    have "main_loop verify draws (c # cycles) w = Inr (Aborted, print FatalLine w2)" .
    with s2 show ?thesis
      by (simp add: store_print del: main_loop.simps)
  qed
qed

lemma initial_nfts_self_consistent: "list_all self_consistent initial_nfts"
  by (simp add: initial_nfts_def self_consistent_NFT_init)

text \<open>
  C9. The constructor stores the digest of the metadata as the signature, so a new record
  is self-consistent. None of the functions changes the list of records or any record in
  it: the verifier, the four stages and the pause return the store they were given.
  Hence \<open>main\<close>, whatever the random draws, ends without an exception in a state whose
  store is still the list it constructed, every record of which is self-consistent; the
  same holds for the loop run over any list of cycles from any state.
\<close>

theorem records_keep_their_digest:
  "signature (NFT_init tid md) = metadata_digest md
   \<and> metadata (NFT_init tid md) = md
   \<and> store (snd (cross_verify_nfts nfts w)) = store w
   \<and> store (snd (update d w)) = store w
   \<and> (think readings w = Inr (res, w') \<longrightarrow> store w' = store w)
   \<and> store (act status val w) = store w
   \<and> store (breath cycle w) = store w
   \<and> store (sleep w) = store w
   \<and> (\<exists>h wf. main_loop (\<lambda>cycle. cross_verify_nfts) draws cycles w = Inr (h, wf)
              \<and> store wf = store w)
   \<and> (\<exists>h wf. main draws = Inr (h, wf) \<and> store wf = initial_nfts
              \<and> list_all self_consistent (store wf))"
proof -
  have init: "signature (NFT_init tid md) = metadata_digest md \<and> metadata (NFT_init tid md) = md"
    by (simp add: NFT_init_def)
  have upd: "store (snd (update d w)) = store w"
    by (cases d) (simp add: update_def Let_def store_print)
  have thk: "think readings w = Inr (res, w') \<longrightarrow> store w' = store w"
    by (auto simp: think_def Let_def store_print split: sum.splits)
  have stg: "store (act status val w) = store w \<and> store (breath cycle w) = store w
             \<and> store (sleep w) = store w"
    by (simp add: act_def breath_def sleep_def store_print)
  have loop: "\<exists>h wf. main_loop (\<lambda>cycle. cross_verify_nfts) draws cycles w = Inr (h, wf)
                \<and> store wf = store w"
    by (rule main_loop_store) (rule cross_verify_store)
  have "\<exists>h wf. main_loop (\<lambda>cycle. cross_verify_nfts) draws [1..<MAX_CYCLES + 1]
                  \<lparr>store = initial_nfts, trace = []\<rparr> = Inr (h, wf)
                \<and> store wf = store \<lparr>store = initial_nfts, trace = []\<rparr>"
    by (rule main_loop_store) (rule cross_verify_store)
  then have whole: "\<exists>h wf. main draws = Inr (h, wf) \<and> store wf = initial_nfts
                      \<and> list_all self_consistent (store wf)"
    using initial_nfts_self_consistent by (auto simp: main_def orchestrator_def)
  from init cross_verify_store [of nfts w] upd thk stg loop whole show ?thesis
    by blast
qed

theorem records_keep_their_digest_witness:
  "think [(''temperature'', Finite False 25)] tampered_world
     = Inr ((''normal'', Finite False 25), print (ThinkLine (Finite False 25) ''normal'') tampered_world)
   \<and> store (print (ThinkLine (Finite False 25) ''normal'') tampered_world) = store tampered_world
   \<and> store tampered_world = [rec_tampered]"
proof -
  have run: "think [(''temperature'', Finite False 25)] tampered_world
             = Inr ((''normal'', Finite False 25),
                    print (ThinkLine (Finite False 25) ''normal'') tampered_world)"
    by (simp add: think_def float_eval)
  from records_keep_their_digest
         [where readings = "[(''temperature'', Finite False 25)]" and w = tampered_world
            and res = "(''normal'', Finite False 25)"
            and w' = "print (ThinkLine (Finite False 25) ''normal'') tampered_world"]
       run
  have "store (print (ThinkLine (Finite False 25) ''normal'') tampered_world) = store tampered_world"
    by blast
  with run show ?thesis
    by (simp add: tampered_world_def)
qed


section \<open>The digests of the three records of \<open>main\<close>\<close>

lemma replicate_numeral: "replicate (numeral n) x = x # replicate (pred_numeral n) x"
  by (simp add: numeral_eq_Suc)

lemmas sha_round_defs =
  Sigma0_def Sigma1_def sigma0_def sigma1_def Ch_def Maj_def rotr_def

text \<open>The digest of the metadata of \<open>nft1\<close>, block by block, four rounds at a time.\<close>

lemma bytes_nft1:
  "encode (json_dumps [(''owner'', ''alice''), (''asset'', ''artwork''), (''serial'', ''A123'')]) =
     [123, 34, 97, 115, 115, 101, 116, 34, 58, 32, 34, 97, 114, 116, 119, 111,
      114, 107, 34, 44, 32, 34, 111, 119, 110, 101, 114, 34, 58, 32, 34, 97,
      108, 105, 99, 101, 34, 44, 32, 34, 115, 101, 114, 105, 97, 108, 34, 58,
      32, 34, 65, 49, 50, 51, 34, 125]"
  by (simp add: json_dumps_def json_item_def json_string_def escape_char_def encode_def encode_char_def)

lemma blocks_nft1:
  "blocks (be32 (pad
     [123, 34, 97, 115, 115, 101, 116, 34, 58, 32, 34, 97, 114, 116, 119, 111,
      114, 107, 34, 44, 32, 34, 111, 119, 110, 101, 114, 34, 58, 32, 34, 97,
      108, 105, 99, 101, 34, 44, 32, 34, 115, 101, 114, 105, 97, 108, 34, 58,
      32, 34, 65, 49, 50, 51, 34, 125])) =
     [[0x7b226173, 0x73657422, 0x3a202261, 0x7274776f, 0x726b222c, 0x20226f77, 0x6e657222, 0x3a202261,
       0x6c696365, 0x222c2022, 0x73657269, 0x616c223a, 0x20224131, 0x3233227d, 0x80000000, 0x00000000],
      [0x00000000, 0x00000000, 0x00000000, 0x00000000, 0x00000000, 0x00000000, 0x00000000, 0x00000000,
       0x00000000, 0x00000000, 0x00000000, 0x00000000, 0x00000000, 0x00000000, 0x00000000, 0x000001c0]]"
  by (simp add: pad_def be64_def replicate_numeral)

lemma rounds_nft1_b0_00:
  "foldl round256
     ((0x6a09e667, 0xbb67ae85, 0x3c6ef372, 0xa54ff53a, 0x510e527f, 0x9b05688c, 0x1f83d9ab, 0x5be0cd19),
       [0x7b226173, 0x73657422, 0x3a202261, 0x7274776f, 0x726b222c, 0x20226f77, 0x6e657222, 0x3a202261,
        0x6c696365, 0x222c2022, 0x73657269, 0x616c223a, 0x20224131, 0x3233227d, 0x80000000, 0x00000000]) K_00_03 =
     ((0xf8c826ea, 0x34113967, 0x3499cb8c, 0x772ae9c0, 0xebdfb18d, 0x43051529, 0xfd6ecd3e, 0x13ea4415),
       [0x726b222c, 0x20226f77, 0x6e657222, 0x3a202261, 0x6c696365, 0x222c2022, 0x73657269, 0x616c223a,
        0x20224131, 0x3233227d, 0x80000000, 0x00000000, 0xb4f1ca4a, 0xb472f10b, 0x453f2fcd, 0x57431746])"
  by (simp add: K_00_03_def sha_round_defs)

lemma rounds_nft1_b0_04:
  "foldl round256
     ((0xf8c826ea, 0x34113967, 0x3499cb8c, 0x772ae9c0, 0xebdfb18d, 0x43051529, 0xfd6ecd3e, 0x13ea4415),
       [0x726b222c, 0x20226f77, 0x6e657222, 0x3a202261, 0x6c696365, 0x222c2022, 0x73657269, 0x616c223a,
        0x20224131, 0x3233227d, 0x80000000, 0x00000000, 0xb4f1ca4a, 0xb472f10b, 0x453f2fcd, 0x57431746]) K_04_07 =
     ((0x845f4553, 0x4862e12b, 0x86df8c4f, 0xdf33d9a2, 0x5ded4c96, 0x9f9da1b4, 0x09ab996f, 0x77c7335c),
       [0x6c696365, 0x222c2022, 0x73657269, 0x616c223a, 0x20224131, 0x3233227d, 0x80000000, 0x00000000,
        0xb4f1ca4a, 0xb472f10b, 0x453f2fcd, 0x57431746, 0x88464bd4, 0x9f19a03c, 0x28c0415b, 0x72dcac62])"
  by (simp add: K_04_07_def sha_round_defs)

lemma rounds_nft1_b0_08:
  "foldl round256
     ((0x845f4553, 0x4862e12b, 0x86df8c4f, 0xdf33d9a2, 0x5ded4c96, 0x9f9da1b4, 0x09ab996f, 0x77c7335c),
       [0x6c696365, 0x222c2022, 0x73657269, 0x616c223a, 0x20224131, 0x3233227d, 0x80000000, 0x00000000,
        0xb4f1ca4a, 0xb472f10b, 0x453f2fcd, 0x57431746, 0x88464bd4, 0x9f19a03c, 0x28c0415b, 0x72dcac62]) K_08_11 =
     ((0x4932d8d9, 0x1d10d4af, 0x8ba4d786, 0x51e09a15, 0x9282e5cc, 0x560b6bda, 0xcb66a5fc, 0xf615f0ad),
       [0x20224131, 0x3233227d, 0x80000000, 0x00000000, 0xb4f1ca4a, 0xb472f10b, 0x453f2fcd, 0x57431746,
        0x88464bd4, 0x9f19a03c, 0x28c0415b, 0x72dcac62, 0x91726aa7, 0xab1d487d, 0xb32db414, 0xecd65a79])"
  by (simp add: K_08_11_def sha_round_defs)

lemma rounds_nft1_b0_12:
  "foldl round256
     ((0x4932d8d9, 0x1d10d4af, 0x8ba4d786, 0x51e09a15, 0x9282e5cc, 0x560b6bda, 0xcb66a5fc, 0xf615f0ad),
       [0x20224131, 0x3233227d, 0x80000000, 0x00000000, 0xb4f1ca4a, 0xb472f10b, 0x453f2fcd, 0x57431746,
        0x88464bd4, 0x9f19a03c, 0x28c0415b, 0x72dcac62, 0x91726aa7, 0xab1d487d, 0xb32db414, 0xecd65a79]) K_12_15 =
     ((0xc9dbb6b4, 0x3dad0a8f, 0x2a9ec3c1, 0x181e1ddf, 0xab37f081, 0x22fd24b9, 0x4ca88281, 0x00e848e1),
       [0xb4f1ca4a, 0xb472f10b, 0x453f2fcd, 0x57431746, 0x88464bd4, 0x9f19a03c, 0x28c0415b, 0x72dcac62,
        0x91726aa7, 0xab1d487d, 0xb32db414, 0xecd65a79, 0x609d3492, 0x523c823f, 0x2fa00772, 0x5424af01])"
  by (simp add: K_12_15_def sha_round_defs)

lemma rounds_nft1_b0_16:
  "foldl round256
     ((0xc9dbb6b4, 0x3dad0a8f, 0x2a9ec3c1, 0x181e1ddf, 0xab37f081, 0x22fd24b9, 0x4ca88281, 0x00e848e1),
       [0xb4f1ca4a, 0xb472f10b, 0x453f2fcd, 0x57431746, 0x88464bd4, 0x9f19a03c, 0x28c0415b, 0x72dcac62,
        0x91726aa7, 0xab1d487d, 0xb32db414, 0xecd65a79, 0x609d3492, 0x523c823f, 0x2fa00772, 0x5424af01]) K_16_19 =
     ((0xaad20859, 0x20bb7e91, 0xda78e126, 0xa13e8c32, 0x831533de, 0x38c17403, 0x276db5b5, 0xa6b2b735),
       [0x88464bd4, 0x9f19a03c, 0x28c0415b, 0x72dcac62, 0x91726aa7, 0xab1d487d, 0xb32db414, 0xecd65a79,
        0x609d3492, 0x523c823f, 0x2fa00772, 0x5424af01, 0x211023cb, 0x83f4f9c5, 0x8b41abfe, 0xc6c8408e])"
  by (simp add: K_16_19_def sha_round_defs)

lemma rounds_nft1_b0_20:
  "foldl round256
     ((0xaad20859, 0x20bb7e91, 0xda78e126, 0xa13e8c32, 0x831533de, 0x38c17403, 0x276db5b5, 0xa6b2b735),
       [0x88464bd4, 0x9f19a03c, 0x28c0415b, 0x72dcac62, 0x91726aa7, 0xab1d487d, 0xb32db414, 0xecd65a79,
        0x609d3492, 0x523c823f, 0x2fa00772, 0x5424af01, 0x211023cb, 0x83f4f9c5, 0x8b41abfe, 0xc6c8408e]) K_20_23 =
     ((0xf36624c5, 0x1485090b, 0x53d37e37, 0x17e4d701, 0xed1503e3, 0xb8b78d32, 0x9cac7293, 0xadd048f5),
       [0x91726aa7, 0xab1d487d, 0xb32db414, 0xecd65a79, 0x609d3492, 0x523c823f, 0x2fa00772, 0x5424af01,
        0x211023cb, 0x83f4f9c5, 0x8b41abfe, 0xc6c8408e, 0xbdf73336, 0x9a3ff3f4, 0xde5e9548, 0x63346fae])"
  by (simp add: K_20_23_def sha_round_defs)

lemma rounds_nft1_b0_24:
  "foldl round256
     ((0xf36624c5, 0x1485090b, 0x53d37e37, 0x17e4d701, 0xed1503e3, 0xb8b78d32, 0x9cac7293, 0xadd048f5),
       [0x91726aa7, 0xab1d487d, 0xb32db414, 0xecd65a79, 0x609d3492, 0x523c823f, 0x2fa00772, 0x5424af01,
        0x211023cb, 0x83f4f9c5, 0x8b41abfe, 0xc6c8408e, 0xbdf73336, 0x9a3ff3f4, 0xde5e9548, 0x63346fae]) K_24_27 =
     ((0x199e48f3, 0x2fdeefdd, 0x8adc578f, 0x1fb2af4d, 0xae83cc2c, 0x78d853f1, 0xcfd04641, 0x216b547a),
       [0x609d3492, 0x523c823f, 0x2fa00772, 0x5424af01, 0x211023cb, 0x83f4f9c5, 0x8b41abfe, 0xc6c8408e,
        0xbdf73336, 0x9a3ff3f4, 0xde5e9548, 0x63346fae, 0x69cd4105, 0x429fe683, 0xfb8b7bff, 0x20450170])"
  by (simp add: K_24_27_def sha_round_defs)

lemma rounds_nft1_b0_28:
  "foldl round256
     ((0x199e48f3, 0x2fdeefdd, 0x8adc578f, 0x1fb2af4d, 0xae83cc2c, 0x78d853f1, 0xcfd04641, 0x216b547a),
       [0x609d3492, 0x523c823f, 0x2fa00772, 0x5424af01, 0x211023cb, 0x83f4f9c5, 0x8b41abfe, 0xc6c8408e,
        0xbdf73336, 0x9a3ff3f4, 0xde5e9548, 0x63346fae, 0x69cd4105, 0x429fe683, 0xfb8b7bff, 0x20450170]) K_28_31 =
     ((0x07a9fffb, 0xce41bff1, 0x54b09d9b, 0x2e3d8305, 0x4834ce95, 0xe5e3368b, 0x0a4423c0, 0x49354fcb),
       [0x211023cb, 0x83f4f9c5, 0x8b41abfe, 0xc6c8408e, 0xbdf73336, 0x9a3ff3f4, 0xde5e9548, 0x63346fae,
        0x69cd4105, 0x429fe683, 0xfb8b7bff, 0x20450170, 0x220846bc, 0x31b0e7f9, 0xe242182b, 0xc794af57])"
  by (simp add: K_28_31_def sha_round_defs)

lemma rounds_nft1_b0_32:
  "foldl round256
     ((0x07a9fffb, 0xce41bff1, 0x54b09d9b, 0x2e3d8305, 0x4834ce95, 0xe5e3368b, 0x0a4423c0, 0x49354fcb),
       [0x211023cb, 0x83f4f9c5, 0x8b41abfe, 0xc6c8408e, 0xbdf73336, 0x9a3ff3f4, 0xde5e9548, 0x63346fae,
        0x69cd4105, 0x429fe683, 0xfb8b7bff, 0x20450170, 0x220846bc, 0x31b0e7f9, 0xe242182b, 0xc794af57]) K_32_35 =
     ((0x8ba854cf, 0x94cc2f59, 0x8661c80c, 0x52bab38d, 0xcd26ddd9, 0x758780a9, 0x725e9932, 0xa088c7e8),
       [0xbdf73336, 0x9a3ff3f4, 0xde5e9548, 0x63346fae, 0x69cd4105, 0x429fe683, 0xfb8b7bff, 0x20450170,
        0x220846bc, 0x31b0e7f9, 0xe242182b, 0xc794af57, 0x57e03e73, 0xc87288cf, 0xd9e00f93, 0xb425305c])"
  by (simp add: K_32_35_def sha_round_defs)

lemma rounds_nft1_b0_36:
  "foldl round256
     ((0x8ba854cf, 0x94cc2f59, 0x8661c80c, 0x52bab38d, 0xcd26ddd9, 0x758780a9, 0x725e9932, 0xa088c7e8),
       [0xbdf73336, 0x9a3ff3f4, 0xde5e9548, 0x63346fae, 0x69cd4105, 0x429fe683, 0xfb8b7bff, 0x20450170,
        0x220846bc, 0x31b0e7f9, 0xe242182b, 0xc794af57, 0x57e03e73, 0xc87288cf, 0xd9e00f93, 0xb425305c]) K_36_39 =
     ((0x78e5f965, 0x2a491a7c, 0x350213b7, 0xf6fa8513, 0xd129567f, 0xaeb34415, 0xe5467d1d, 0xdd0775f4),
       [0x69cd4105, 0x429fe683, 0xfb8b7bff, 0x20450170, 0x220846bc, 0x31b0e7f9, 0xe242182b, 0xc794af57,
        0x57e03e73, 0xc87288cf, 0xd9e00f93, 0xb425305c, 0xfc44b214, 0xe9b02a0d, 0xc0b6b30c, 0x233d3cd6])"
  by (simp add: K_36_39_def sha_round_defs)

lemma rounds_nft1_b0_40:
  "foldl round256
     ((0x78e5f965, 0x2a491a7c, 0x350213b7, 0xf6fa8513, 0xd129567f, 0xaeb34415, 0xe5467d1d, 0xdd0775f4),
       [0x69cd4105, 0x429fe683, 0xfb8b7bff, 0x20450170, 0x220846bc, 0x31b0e7f9, 0xe242182b, 0xc794af57,
        0x57e03e73, 0xc87288cf, 0xd9e00f93, 0xb425305c, 0xfc44b214, 0xe9b02a0d, 0xc0b6b30c, 0x233d3cd6]) K_40_43 =
     ((0xecacf29b, 0x6be40c2a, 0x2acfb407, 0x6d4a1454, 0x8e29e275, 0xd902ca8a, 0x65e7f05a, 0x290c515d),
       [0x220846bc, 0x31b0e7f9, 0xe242182b, 0xc794af57, 0x57e03e73, 0xc87288cf, 0xd9e00f93, 0xb425305c,
        0xfc44b214, 0xe9b02a0d, 0xc0b6b30c, 0x233d3cd6, 0xb98db36f, 0x94f29836, 0xc3b91733, 0xa96c689d])"
  by (simp add: K_40_43_def sha_round_defs)

lemma rounds_nft1_b0_44:
  "foldl round256
     ((0xecacf29b, 0x6be40c2a, 0x2acfb407, 0x6d4a1454, 0x8e29e275, 0xd902ca8a, 0x65e7f05a, 0x290c515d),
       [0x220846bc, 0x31b0e7f9, 0xe242182b, 0xc794af57, 0x57e03e73, 0xc87288cf, 0xd9e00f93, 0xb425305c,
        0xfc44b214, 0xe9b02a0d, 0xc0b6b30c, 0x233d3cd6, 0xb98db36f, 0x94f29836, 0xc3b91733, 0xa96c689d]) K_44_47 =
     ((0x2cacfbe8, 0xbaec7be0, 0xfbcea1c3, 0xda11952c, 0xde3bf133, 0x61d85c95, 0x6243baf1, 0x0030bf02),
       [0x57e03e73, 0xc87288cf, 0xd9e00f93, 0xb425305c, 0xfc44b214, 0xe9b02a0d, 0xc0b6b30c, 0x233d3cd6,
        0xb98db36f, 0x94f29836, 0xc3b91733, 0xa96c689d, 0x82b31a13, 0x7965152b, 0x9092c01b, 0x8d1fffeb])"
  by (simp add: K_44_47_def sha_round_defs)

lemma rounds_nft1_b0_48:
  "foldl round256
     ((0x2cacfbe8, 0xbaec7be0, 0xfbcea1c3, 0xda11952c, 0xde3bf133, 0x61d85c95, 0x6243baf1, 0x0030bf02),
       [0x57e03e73, 0xc87288cf, 0xd9e00f93, 0xb425305c, 0xfc44b214, 0xe9b02a0d, 0xc0b6b30c, 0x233d3cd6,
        0xb98db36f, 0x94f29836, 0xc3b91733, 0xa96c689d, 0x82b31a13, 0x7965152b, 0x9092c01b, 0x8d1fffeb]) K_48_51 =
     ((0x016cb9d6, 0x030ba5bb, 0x7ab515b0, 0xe97cc1c0, 0xff5012cf, 0xedc2fe8d, 0x06374360, 0xa11b5fdd),
       [0xfc44b214, 0xe9b02a0d, 0xc0b6b30c, 0x233d3cd6, 0xb98db36f, 0x94f29836, 0xc3b91733, 0xa96c689d,
        0x82b31a13, 0x7965152b, 0x9092c01b, 0x8d1fffeb, 0x49aabba8, 0xcbc2c86a, 0x71fb80e0, 0x8ed836d1])"
  by (simp add: K_48_51_def sha_round_defs)

lemma rounds_nft1_b0_52:
  "foldl round256
     ((0x016cb9d6, 0x030ba5bb, 0x7ab515b0, 0xe97cc1c0, 0xff5012cf, 0xedc2fe8d, 0x06374360, 0xa11b5fdd),
       [0xfc44b214, 0xe9b02a0d, 0xc0b6b30c, 0x233d3cd6, 0xb98db36f, 0x94f29836, 0xc3b91733, 0xa96c689d,
        0x82b31a13, 0x7965152b, 0x9092c01b, 0x8d1fffeb, 0x49aabba8, 0xcbc2c86a, 0x71fb80e0, 0x8ed836d1]) K_52_55 =
     ((0x49f62ff8, 0x545ad772, 0x6aa4f65a, 0x912972ce, 0xb5601519, 0x9a968934, 0x4c3a6a70, 0x7b6c01c7),
       [0xb98db36f, 0x94f29836, 0xc3b91733, 0xa96c689d, 0x82b31a13, 0x7965152b, 0x9092c01b, 0x8d1fffeb,
        0x49aabba8, 0xcbc2c86a, 0x71fb80e0, 0x8ed836d1, 0x32802eda, 0x4528b60c, 0x47a6073e, 0x5f581c02])"
  by (simp add: K_52_55_def sha_round_defs)

lemma rounds_nft1_b0_56:
  "foldl round256
     ((0x49f62ff8, 0x545ad772, 0x6aa4f65a, 0x912972ce, 0xb5601519, 0x9a968934, 0x4c3a6a70, 0x7b6c01c7),
       [0xb98db36f, 0x94f29836, 0xc3b91733, 0xa96c689d, 0x82b31a13, 0x7965152b, 0x9092c01b, 0x8d1fffeb,
        0x49aabba8, 0xcbc2c86a, 0x71fb80e0, 0x8ed836d1, 0x32802eda, 0x4528b60c, 0x47a6073e, 0x5f581c02]) K_56_59 =
     ((0x9c7a803c, 0x57082b41, 0x2364659d, 0xf5846102, 0x40069766, 0x53d82652, 0x934034d0, 0x88b6b6ee),
       [0x82b31a13, 0x7965152b, 0x9092c01b, 0x8d1fffeb, 0x49aabba8, 0xcbc2c86a, 0x71fb80e0, 0x8ed836d1,
        0x32802eda, 0x4528b60c, 0x47a6073e, 0x5f581c02, 0x22739189, 0x4ec16b7c, 0x41e6b730, 0x66869c33])"
  by (simp add: K_56_59_def sha_round_defs)

lemma rounds_nft1_b0_60:
  "foldl round256
     ((0x9c7a803c, 0x57082b41, 0x2364659d, 0xf5846102, 0x40069766, 0x53d82652, 0x934034d0, 0x88b6b6ee),
       [0x82b31a13, 0x7965152b, 0x9092c01b, 0x8d1fffeb, 0x49aabba8, 0xcbc2c86a, 0x71fb80e0, 0x8ed836d1,
        0x32802eda, 0x4528b60c, 0x47a6073e, 0x5f581c02, 0x22739189, 0x4ec16b7c, 0x41e6b730, 0x66869c33]) K_60_63 =
     ((0x196364d3, 0x2526f7b1, 0x495c1313, 0xca4f7443, 0xfd711dad, 0x79500fde, 0x2119d82d, 0xdb71027e),
       [0x49aabba8, 0xcbc2c86a, 0x71fb80e0, 0x8ed836d1, 0x32802eda, 0x4528b60c, 0x47a6073e, 0x5f581c02,
        0x22739189, 0x4ec16b7c, 0x41e6b730, 0x66869c33, 0x71ded857, 0xf3c73444, 0xe06b20c4, 0x2375b832])"
  by (simp add: K_60_63_def sha_round_defs)

lemma compress_nft1_b0:
  "compress
     (0x6a09e667, 0xbb67ae85, 0x3c6ef372, 0xa54ff53a, 0x510e527f, 0x9b05688c, 0x1f83d9ab, 0x5be0cd19)
     [0x7b226173, 0x73657422, 0x3a202261, 0x7274776f, 0x726b222c, 0x20226f77, 0x6e657222, 0x3a202261,
      0x6c696365, 0x222c2022, 0x73657269, 0x616c223a, 0x20224131, 0x3233227d, 0x80000000, 0x00000000] =
     (0x836d4b3a, 0xe08ea636, 0x85cb0685, 0x6f9f697d, 0x4e7f702c, 0x1455786a, 0x409db1d8, 0x3751cf97)"
  by (simp add: compress_def K256_def
       rounds_nft1_b0_00 rounds_nft1_b0_04 rounds_nft1_b0_08 rounds_nft1_b0_12
       rounds_nft1_b0_16 rounds_nft1_b0_20 rounds_nft1_b0_24 rounds_nft1_b0_28
       rounds_nft1_b0_32 rounds_nft1_b0_36 rounds_nft1_b0_40 rounds_nft1_b0_44
       rounds_nft1_b0_48 rounds_nft1_b0_52 rounds_nft1_b0_56 rounds_nft1_b0_60)

lemma rounds_nft1_b1_00:
  "foldl round256
     ((0x836d4b3a, 0xe08ea636, 0x85cb0685, 0x6f9f697d, 0x4e7f702c, 0x1455786a, 0x409db1d8, 0x3751cf97),
       [0x00000000, 0x00000000, 0x00000000, 0x00000000, 0x00000000, 0x00000000, 0x00000000, 0x00000000,
        0x00000000, 0x00000000, 0x00000000, 0x00000000, 0x00000000, 0x00000000, 0x00000000, 0x000001c0]) K_00_03 =
     ((0x35414079, 0x4b99dede, 0x4e3ddc76, 0xd7acbf0f, 0x65815afe, 0xddadc60b, 0x50f285c5, 0x79597ead),
       [0x00000000, 0x00000000, 0x00000000, 0x00000000, 0x00000000, 0x00000000, 0x00000000, 0x00000000,
        0x00000000, 0x00000000, 0x00000000, 0x000001c0, 0x00000000, 0x00d80000, 0x00000000, 0x00003677])"
  by (simp add: K_00_03_def sha_round_defs)

lemma rounds_nft1_b1_04:
  "foldl round256
     ((0x35414079, 0x4b99dede, 0x4e3ddc76, 0xd7acbf0f, 0x65815afe, 0xddadc60b, 0x50f285c5, 0x79597ead),
       [0x00000000, 0x00000000, 0x00000000, 0x00000000, 0x00000000, 0x00000000, 0x00000000, 0x00000000,
        0x00000000, 0x00000000, 0x00000000, 0x000001c0, 0x00000000, 0x00d80000, 0x00000000, 0x00003677]) K_04_07 =
     ((0x8aeef4d9, 0xee8d5b82, 0xb733edde, 0x0a4dcdc4, 0xbf483e5c, 0xf6573450, 0x9ea3cc42, 0x47489194),
       [0x00000000, 0x00000000, 0x00000000, 0x00000000, 0x00000000, 0x00000000, 0x00000000, 0x000001c0,
        0x00000000, 0x00d80000, 0x00000000, 0x00003677, 0x00000000, 0x1df5600d, 0x000001c0, 0x1c00501c])"
  by (simp add: K_04_07_def sha_round_defs)

lemma rounds_nft1_b1_08:
  "foldl round256
     ((0x8aeef4d9, 0xee8d5b82, 0xb733edde, 0x0a4dcdc4, 0xbf483e5c, 0xf6573450, 0x9ea3cc42, 0x47489194),
       [0x00000000, 0x00000000, 0x00000000, 0x00000000, 0x00000000, 0x00000000, 0x00000000, 0x000001c0,
        0x00000000, 0x00d80000, 0x00000000, 0x00003677, 0x00000000, 0x1df5600d, 0x000001c0, 0x1c00501c]) K_08_11 =
     ((0x596a8328, 0x85bc1086, 0x05c00ad5, 0x21fea263, 0x09444163, 0x5a675095, 0xf015da06, 0xfdf7e5e3),
       [0x00000000, 0x00000000, 0x00000000, 0x000001c0, 0x00000000, 0x00d80000, 0x00000000, 0x00003677,
        0x00000000, 0x1df5600d, 0x000001c0, 0x1c00501c, 0x01b00000, 0x220a8d94, 0x0000a365, 0x177017e7])"
  by (simp add: K_08_11_def sha_round_defs)

lemma rounds_nft1_b1_12:
  "foldl round256
     ((0x596a8328, 0x85bc1086, 0x05c00ad5, 0x21fea263, 0x09444163, 0x5a675095, 0xf015da06, 0xfdf7e5e3),
       [0x00000000, 0x00000000, 0x00000000, 0x000001c0, 0x00000000, 0x00d80000, 0x00000000, 0x00003677,
        0x00000000, 0x1df5600d, 0x000001c0, 0x1c00501c, 0x01b00000, 0x220a8d94, 0x0000a365, 0x177017e7]) K_12_15 =
     ((0x9c9028d0, 0x09a4cc76, 0x759d6439, 0x166d72e4, 0x6d64a167, 0x30b76aa1, 0x3e80dcdf, 0x8d6f47c8),
       [0x00000000, 0x00d80000, 0x00000000, 0x00003677, 0x00000000, 0x1df5600d, 0x000001c0, 0x1c00501c,
        0x01b00000, 0x220a8d94, 0x0000a365, 0x177017e7, 0x63d38035, 0x090ab713, 0x4c7539ca, 0x0f19a8c9])"
  by (simp add: K_12_15_def sha_round_defs)

lemma rounds_nft1_b1_16:
  "foldl round256
     ((0x9c9028d0, 0x09a4cc76, 0x759d6439, 0x166d72e4, 0x6d64a167, 0x30b76aa1, 0x3e80dcdf, 0x8d6f47c8),
       [0x00000000, 0x00d80000, 0x00000000, 0x00003677, 0x00000000, 0x1df5600d, 0x000001c0, 0x1c00501c,
        0x01b00000, 0x220a8d94, 0x0000a365, 0x177017e7, 0x63d38035, 0x090ab713, 0x4c7539ca, 0x0f19a8c9]) K_16_19 =
     ((0xa1d51ab3, 0x38b14094, 0x95eaccaa, 0xe64fd520, 0xb9e9b996, 0x426e8a3f, 0xcf431fc4, 0xbe252ecd),
       [0x00000000, 0x1df5600d, 0x000001c0, 0x1c00501c, 0x01b00000, 0x220a8d94, 0x0000a365, 0x177017e7,
        0x63d38035, 0x090ab713, 0x4c7539ca, 0x0f19a8c9, 0x5df4b0c4, 0xe257036a, 0xc97bb6f1, 0xc5b46f4d])"
  by (simp add: K_16_19_def sha_round_defs)

lemma rounds_nft1_b1_20:
  "foldl round256
     ((0xa1d51ab3, 0x38b14094, 0x95eaccaa, 0xe64fd520, 0xb9e9b996, 0x426e8a3f, 0xcf431fc4, 0xbe252ecd),
       [0x00000000, 0x1df5600d, 0x000001c0, 0x1c00501c, 0x01b00000, 0x220a8d94, 0x0000a365, 0x177017e7,
        0x63d38035, 0x090ab713, 0x4c7539ca, 0x0f19a8c9, 0x5df4b0c4, 0xe257036a, 0xc97bb6f1, 0xc5b46f4d]) K_20_23 =
     ((0xb0c61671, 0xdf346750, 0xac45daa2, 0xead90954, 0x876f42c9, 0x05a1eefb, 0x852b5782, 0xb5b50f3f),
       [0x01b00000, 0x220a8d94, 0x0000a365, 0x177017e7, 0x63d38035, 0x090ab713, 0x4c7539ca, 0x0f19a8c9,
        0x5df4b0c4, 0xe257036a, 0xc97bb6f1, 0xc5b46f4d, 0xf8253c4e, 0xa558d189, 0x78696285, 0xed07117f])"
  by (simp add: K_20_23_def sha_round_defs)

lemma rounds_nft1_b1_24:
  "foldl round256
     ((0xb0c61671, 0xdf346750, 0xac45daa2, 0xead90954, 0x876f42c9, 0x05a1eefb, 0x852b5782, 0xb5b50f3f),
       [0x01b00000, 0x220a8d94, 0x0000a365, 0x177017e7, 0x63d38035, 0x090ab713, 0x4c7539ca, 0x0f19a8c9,
        0x5df4b0c4, 0xe257036a, 0xc97bb6f1, 0xc5b46f4d, 0xf8253c4e, 0xa558d189, 0x78696285, 0xed07117f]) K_24_27 =
     ((0x18910797, 0xa9cf52a9, 0x3c04eef7, 0xa17b085b, 0x5d939696, 0x2dbaa41c, 0xf0321bfd, 0x0829f5d0),
       [0x63d38035, 0x090ab713, 0x4c7539ca, 0x0f19a8c9, 0x5df4b0c4, 0xe257036a, 0xc97bb6f1, 0xc5b46f4d,
        0xf8253c4e, 0xa558d189, 0x78696285, 0xed07117f, 0x107358f6, 0x390ae496, 0x565010a2, 0xc51d7d44])"
  by (simp add: K_24_27_def sha_round_defs)

lemma rounds_nft1_b1_28:
  "foldl round256
     ((0x18910797, 0xa9cf52a9, 0x3c04eef7, 0xa17b085b, 0x5d939696, 0x2dbaa41c, 0xf0321bfd, 0x0829f5d0),
       [0x63d38035, 0x090ab713, 0x4c7539ca, 0x0f19a8c9, 0x5df4b0c4, 0xe257036a, 0xc97bb6f1, 0xc5b46f4d,
        0xf8253c4e, 0xa558d189, 0x78696285, 0xed07117f, 0x107358f6, 0x390ae496, 0x565010a2, 0xc51d7d44]) K_28_31 =
     ((0x44b0fcbd, 0x2a44571e, 0x656fbb65, 0x1a0ee641, 0x0fb6cdc3, 0x7f66b251, 0x39d2f64c, 0xc481ced6),
       [0x5df4b0c4, 0xe257036a, 0xc97bb6f1, 0xc5b46f4d, 0xf8253c4e, 0xa558d189, 0x78696285, 0xed07117f,
        0x107358f6, 0x390ae496, 0x565010a2, 0xc51d7d44, 0x9e74c972, 0x6614b561, 0x30fc129d, 0x9ac684a8])"
  by (simp add: K_28_31_def sha_round_defs)

lemma rounds_nft1_b1_32:
  "foldl round256
     ((0x44b0fcbd, 0x2a44571e, 0x656fbb65, 0x1a0ee641, 0x0fb6cdc3, 0x7f66b251, 0x39d2f64c, 0xc481ced6),
       [0x5df4b0c4, 0xe257036a, 0xc97bb6f1, 0xc5b46f4d, 0xf8253c4e, 0xa558d189, 0x78696285, 0xed07117f,
        0x107358f6, 0x390ae496, 0x565010a2, 0xc51d7d44, 0x9e74c972, 0x6614b561, 0x30fc129d, 0x9ac684a8]) K_32_35 =
     ((0xc50d53f1, 0x4dc6221f, 0xe8000092, 0xd467f7cc, 0x6274928f, 0xf554791d, 0xf46a56be, 0x12dcef16),
       [0xf8253c4e, 0xa558d189, 0x78696285, 0xed07117f, 0x107358f6, 0x390ae496, 0x565010a2, 0xc51d7d44,
        0x9e74c972, 0x6614b561, 0x30fc129d, 0x9ac684a8, 0x2b658dbd, 0xe290f793, 0x9eebb24c, 0x9713b5de])"
  by (simp add: K_32_35_def sha_round_defs)

lemma rounds_nft1_b1_36:
  "foldl round256
     ((0xc50d53f1, 0x4dc6221f, 0xe8000092, 0xd467f7cc, 0x6274928f, 0xf554791d, 0xf46a56be, 0x12dcef16),
       [0xf8253c4e, 0xa558d189, 0x78696285, 0xed07117f, 0x107358f6, 0x390ae496, 0x565010a2, 0xc51d7d44,
        0x9e74c972, 0x6614b561, 0x30fc129d, 0x9ac684a8, 0x2b658dbd, 0xe290f793, 0x9eebb24c, 0x9713b5de]) K_36_39 =
     ((0x68e3190b, 0x5062e996, 0x9aa69c9f, 0x631e8c73, 0x88bd8032, 0x42f36249, 0x7c2b245a, 0x8effc62a),
       [0x107358f6, 0x390ae496, 0x565010a2, 0xc51d7d44, 0x9e74c972, 0x6614b561, 0x30fc129d, 0x9ac684a8,
        0x2b658dbd, 0xe290f793, 0x9eebb24c, 0x9713b5de, 0x41061ab7, 0xe022e23b, 0x0772079e, 0x7de22d9c])"
  by (simp add: K_36_39_def sha_round_defs)

lemma rounds_nft1_b1_40:
  "foldl round256
     ((0x68e3190b, 0x5062e996, 0x9aa69c9f, 0x631e8c73, 0x88bd8032, 0x42f36249, 0x7c2b245a, 0x8effc62a),
       [0x107358f6, 0x390ae496, 0x565010a2, 0xc51d7d44, 0x9e74c972, 0x6614b561, 0x30fc129d, 0x9ac684a8,
        0x2b658dbd, 0xe290f793, 0x9eebb24c, 0x9713b5de, 0x41061ab7, 0xe022e23b, 0x0772079e, 0x7de22d9c]) K_40_43 =
     ((0xcaa1328d, 0x324047fb, 0x3753b454, 0x40846b95, 0x0eed748e, 0x403bf127, 0x73f29b98, 0xacb8b170),
       [0x9e74c972, 0x6614b561, 0x30fc129d, 0x9ac684a8, 0x2b658dbd, 0xe290f793, 0x9eebb24c, 0x9713b5de,
        0x41061ab7, 0xe022e23b, 0x0772079e, 0x7de22d9c, 0xc8b83778, 0x75a79849, 0xd93dbddb, 0x0a036c9d])"
  by (simp add: K_40_43_def sha_round_defs)

lemma rounds_nft1_b1_44:
  "foldl round256
     ((0xcaa1328d, 0x324047fb, 0x3753b454, 0x40846b95, 0x0eed748e, 0x403bf127, 0x73f29b98, 0xacb8b170),
       [0x9e74c972, 0x6614b561, 0x30fc129d, 0x9ac684a8, 0x2b658dbd, 0xe290f793, 0x9eebb24c, 0x9713b5de,
        0x41061ab7, 0xe022e23b, 0x0772079e, 0x7de22d9c, 0xc8b83778, 0x75a79849, 0xd93dbddb, 0x0a036c9d]) K_44_47 =
     ((0xa57e2005, 0x73a8d6e2, 0x33fd3a2c, 0x0189f2e9, 0xb3d33e7a, 0x78c98a83, 0x77eda6a4, 0xadc0f921),
       [0x2b658dbd, 0xe290f793, 0x9eebb24c, 0x9713b5de, 0x41061ab7, 0xe022e23b, 0x0772079e, 0x7de22d9c,
        0xc8b83778, 0x75a79849, 0xd93dbddb, 0x0a036c9d, 0xcb4f6ac6, 0x823f97e2, 0xea2f2a7a, 0xb9018b52])"
  by (simp add: K_44_47_def sha_round_defs)

lemma rounds_nft1_b1_48:
  "foldl round256
     ((0xa57e2005, 0x73a8d6e2, 0x33fd3a2c, 0x0189f2e9, 0xb3d33e7a, 0x78c98a83, 0x77eda6a4, 0xadc0f921),
       [0x2b658dbd, 0xe290f793, 0x9eebb24c, 0x9713b5de, 0x41061ab7, 0xe022e23b, 0x0772079e, 0x7de22d9c,
        0xc8b83778, 0x75a79849, 0xd93dbddb, 0x0a036c9d, 0xcb4f6ac6, 0x823f97e2, 0xea2f2a7a, 0xb9018b52]) K_48_51 =
     ((0xc975a188, 0xde79ed07, 0x354aa0ea, 0xf9adc5ca, 0xf97543cc, 0xfc337865, 0x506f7e5a, 0x3548d12a),
       [0x41061ab7, 0xe022e23b, 0x0772079e, 0x7de22d9c, 0xc8b83778, 0x75a79849, 0xd93dbddb, 0x0a036c9d,
        0xcb4f6ac6, 0x823f97e2, 0xea2f2a7a, 0xb9018b52, 0x17c99157, 0x172f87c7, 0xe62fae76, 0x7590e259])"
  by (simp add: K_48_51_def sha_round_defs)

lemma rounds_nft1_b1_52:
  "foldl round256
     ((0xc975a188, 0xde79ed07, 0x354aa0ea, 0xf9adc5ca, 0xf97543cc, 0xfc337865, 0x506f7e5a, 0x3548d12a),
       [0x41061ab7, 0xe022e23b, 0x0772079e, 0x7de22d9c, 0xc8b83778, 0x75a79849, 0xd93dbddb, 0x0a036c9d,
        0xcb4f6ac6, 0x823f97e2, 0xea2f2a7a, 0xb9018b52, 0x17c99157, 0x172f87c7, 0xe62fae76, 0x7590e259]) K_52_55 =
     ((0x6af1ece3, 0xfa74ae90, 0x30e8ed09, 0x5e983539, 0x20ce256a, 0xf82e5dc8, 0xe901cbf5, 0x922f588f),
       [0xc8b83778, 0x75a79849, 0xd93dbddb, 0x0a036c9d, 0xcb4f6ac6, 0x823f97e2, 0xea2f2a7a, 0xb9018b52,
        0x17c99157, 0x172f87c7, 0xe62fae76, 0x7590e259, 0xb95cb85d, 0xf4d42217, 0x479f6e2b, 0x1078359a])"
  by (simp add: K_52_55_def sha_round_defs)

lemma rounds_nft1_b1_56:
  "foldl round256
     ((0x6af1ece3, 0xfa74ae90, 0x30e8ed09, 0x5e983539, 0x20ce256a, 0xf82e5dc8, 0xe901cbf5, 0x922f588f),
       [0xc8b83778, 0x75a79849, 0xd93dbddb, 0x0a036c9d, 0xcb4f6ac6, 0x823f97e2, 0xea2f2a7a, 0xb9018b52,
        0x17c99157, 0x172f87c7, 0xe62fae76, 0x7590e259, 0xb95cb85d, 0xf4d42217, 0x479f6e2b, 0x1078359a]) K_56_59 =
     ((0xd2511d3a, 0xe51a927a, 0xde5776ba, 0x106204b0, 0x28188b85, 0x258217ec, 0xeb44f496, 0x79f4ac4c),
       [0xcb4f6ac6, 0x823f97e2, 0xea2f2a7a, 0xb9018b52, 0x17c99157, 0x172f87c7, 0xe62fae76, 0x7590e259,
        0xb95cb85d, 0xf4d42217, 0x479f6e2b, 0x1078359a, 0xb4f6cd76, 0x3c34d58c, 0xee7a7b54, 0x02277b01])"
  by (simp add: K_56_59_def sha_round_defs)

lemma rounds_nft1_b1_60:
  "foldl round256
     ((0xd2511d3a, 0xe51a927a, 0xde5776ba, 0x106204b0, 0x28188b85, 0x258217ec, 0xeb44f496, 0x79f4ac4c),
       [0xcb4f6ac6, 0x823f97e2, 0xea2f2a7a, 0xb9018b52, 0x17c99157, 0x172f87c7, 0xe62fae76, 0x7590e259,
        0xb95cb85d, 0xf4d42217, 0x479f6e2b, 0x1078359a, 0xb4f6cd76, 0x3c34d58c, 0xee7a7b54, 0x02277b01]) K_60_63 =
     ((0x4d3a2361, 0xe5c5abbd, 0xe0523034, 0x11118716, 0x0c08ea12, 0x091bcbe4, 0xf2af5ea7, 0x31ea36fd),
       [0x17c99157, 0x172f87c7, 0xe62fae76, 0x7590e259, 0xb95cb85d, 0xf4d42217, 0x479f6e2b, 0x1078359a,
        0xb4f6cd76, 0x3c34d58c, 0xee7a7b54, 0x02277b01, 0x63da2ea5, 0x3ece3026, 0x1dcce76d, 0x149428f4])"
  by (simp add: K_60_63_def sha_round_defs)

lemma compress_nft1_b1:
  "compress
     (0x836d4b3a, 0xe08ea636, 0x85cb0685, 0x6f9f697d, 0x4e7f702c, 0x1455786a, 0x409db1d8, 0x3751cf97)
     [0x00000000, 0x00000000, 0x00000000, 0x00000000, 0x00000000, 0x00000000, 0x00000000, 0x00000000,
      0x00000000, 0x00000000, 0x00000000, 0x00000000, 0x00000000, 0x00000000, 0x00000000, 0x000001c0] =
     (0xd0a76e9b, 0xc65451f3, 0x661d36b9, 0x80b0f093, 0x5a885a3e, 0x1d71444e, 0x334d107f, 0x693c0694)"
  by (simp add: compress_def K256_def
       rounds_nft1_b1_00 rounds_nft1_b1_04 rounds_nft1_b1_08 rounds_nft1_b1_12
       rounds_nft1_b1_16 rounds_nft1_b1_20 rounds_nft1_b1_24 rounds_nft1_b1_28
       rounds_nft1_b1_32 rounds_nft1_b1_36 rounds_nft1_b1_40 rounds_nft1_b1_44
       rounds_nft1_b1_48 rounds_nft1_b1_52 rounds_nft1_b1_56 rounds_nft1_b1_60)

lemma digest_nft1:
  "metadata_digest [(''owner'', ''alice''), (''asset'', ''artwork''), (''serial'', ''A123'')] =
     ''d0a76e9bc65451f3661d36b980b0f0935a885a3e1d71444e334d107f693c0694''"
  by (simp add: metadata_digest_def sha256_hexdigest_def sha256_def H0_def bytes_nft1 blocks_nft1
       compress_nft1_b0 compress_nft1_b1 hex32_def hexdigit_def)

text \<open>The digest of the metadata of \<open>nft2\<close>, block by block, four rounds at a time.\<close>

lemma bytes_nft2:
  "encode (json_dumps [(''owner'', ''bob''), (''asset'', ''watch''), (''serial'', ''W456'')]) =
     [123, 34, 97, 115, 115, 101, 116, 34, 58, 32, 34, 119, 97, 116, 99, 104,
      34, 44, 32, 34, 111, 119, 110, 101, 114, 34, 58, 32, 34, 98, 111, 98,
      34, 44, 32, 34, 115, 101, 114, 105, 97, 108, 34, 58, 32, 34, 87, 52,
      53, 54, 34, 125]"
  by (simp add: json_dumps_def json_item_def json_string_def escape_char_def encode_def encode_char_def)

lemma blocks_nft2:
  "blocks (be32 (pad
     [123, 34, 97, 115, 115, 101, 116, 34, 58, 32, 34, 119, 97, 116, 99, 104,
      34, 44, 32, 34, 111, 119, 110, 101, 114, 34, 58, 32, 34, 98, 111, 98,
      34, 44, 32, 34, 115, 101, 114, 105, 97, 108, 34, 58, 32, 34, 87, 52,
      53, 54, 34, 125])) =
     [[0x7b226173, 0x73657422, 0x3a202277, 0x61746368, 0x222c2022, 0x6f776e65, 0x72223a20, 0x22626f62,
       0x222c2022, 0x73657269, 0x616c223a, 0x20225734, 0x3536227d, 0x80000000, 0x00000000, 0x000001a0]]"
  by (simp add: pad_def be64_def replicate_numeral)

lemma rounds_nft2_b0_00:
  "foldl round256
     ((0x6a09e667, 0xbb67ae85, 0x3c6ef372, 0xa54ff53a, 0x510e527f, 0x9b05688c, 0x1f83d9ab, 0x5be0cd19),
       [0x7b226173, 0x73657422, 0x3a202277, 0x61746368, 0x222c2022, 0x6f776e65, 0x72223a20, 0x22626f62,
        0x222c2022, 0x73657269, 0x616c223a, 0x20225734, 0x3536227d, 0x80000000, 0x00000000, 0x000001a0]) K_00_03 =
     ((0xbcb7c5f3, 0x3411397d, 0x3499cb8c, 0x772ae9c0, 0x309fa888, 0x4305153f, 0xfd6ecd3e, 0x13ea4415),
       [0x222c2022, 0x6f776e65, 0x72223a20, 0x22626f62, 0x222c2022, 0x73657269, 0x616c223a, 0x20225734,
        0x3536227d, 0x80000000, 0x00000000, 0x000001a0, 0x060acc91, 0xb76320de, 0x5e541818, 0xd30d3049])"
  by (simp add: K_00_03_def sha_round_defs)

lemma rounds_nft2_b0_04:
  "foldl round256
     ((0xbcb7c5f3, 0x3411397d, 0x3499cb8c, 0x772ae9c0, 0x309fa888, 0x4305153f, 0xfd6ecd3e, 0x13ea4415),
       [0x222c2022, 0x6f776e65, 0x72223a20, 0x22626f62, 0x222c2022, 0x73657269, 0x616c223a, 0x20225734,
        0x3536227d, 0x80000000, 0x00000000, 0x000001a0, 0x060acc91, 0xb76320de, 0x5e541818, 0xd30d3049]) K_04_07 =
     ((0x98ada8f2, 0x2931f9a0, 0xcecd1314, 0x0f1c394c, 0x459c7e9e, 0x2f4cc033, 0x0e0f5e95, 0x320d7edf),
       [0x222c2022, 0x73657269, 0x616c223a, 0x20225734, 0x3536227d, 0x80000000, 0x00000000, 0x000001a0,
        0x060acc91, 0xb76320de, 0x5e541818, 0xd30d3049, 0x4dee2ad5, 0x6db89ec8, 0x9e15b22a, 0xcd1ce60e])"
  by (simp add: K_04_07_def sha_round_defs)

lemma rounds_nft2_b0_08:
  "foldl round256
     ((0x98ada8f2, 0x2931f9a0, 0xcecd1314, 0x0f1c394c, 0x459c7e9e, 0x2f4cc033, 0x0e0f5e95, 0x320d7edf),
       [0x222c2022, 0x73657269, 0x616c223a, 0x20225734, 0x3536227d, 0x80000000, 0x00000000, 0x000001a0,
        0x060acc91, 0xb76320de, 0x5e541818, 0xd30d3049, 0x4dee2ad5, 0x6db89ec8, 0x9e15b22a, 0xcd1ce60e]) K_08_11 =
     ((0x3569e266, 0xcdd00cfe, 0x233f18e2, 0x7ffc35e6, 0xc969d7ea, 0x07877670, 0xf83306ad, 0xaf4e504f),
       [0x3536227d, 0x80000000, 0x00000000, 0x000001a0, 0x060acc91, 0xb76320de, 0x5e541818, 0xd30d3049,
        0x4dee2ad5, 0x6db89ec8, 0x9e15b22a, 0xcd1ce60e, 0xc9171314, 0x321146ed, 0x99dd1130, 0x6e0c226a])"
  by (simp add: K_08_11_def sha_round_defs)

lemma rounds_nft2_b0_12:
  "foldl round256
     ((0x3569e266, 0xcdd00cfe, 0x233f18e2, 0x7ffc35e6, 0xc969d7ea, 0x07877670, 0xf83306ad, 0xaf4e504f),
       [0x3536227d, 0x80000000, 0x00000000, 0x000001a0, 0x060acc91, 0xb76320de, 0x5e541818, 0xd30d3049,
        0x4dee2ad5, 0x6db89ec8, 0x9e15b22a, 0xcd1ce60e, 0xc9171314, 0x321146ed, 0x99dd1130, 0x6e0c226a]) K_12_15 =
     ((0xfbd2a339, 0x1f94b6c9, 0xe7b028be, 0xca48f98f, 0xbe34d7a7, 0xc9420ee9, 0x209c05a5, 0xeae9db8c),
       [0x060acc91, 0xb76320de, 0x5e541818, 0xd30d3049, 0x4dee2ad5, 0x6db89ec8, 0x9e15b22a, 0xcd1ce60e,
        0xc9171314, 0x321146ed, 0x99dd1130, 0x6e0c226a, 0xde8709d6, 0xb379abf9, 0x736afb96, 0x3baf53f6])"
  by (simp add: K_12_15_def sha_round_defs)

lemma rounds_nft2_b0_16:
  "foldl round256
     ((0xfbd2a339, 0x1f94b6c9, 0xe7b028be, 0xca48f98f, 0xbe34d7a7, 0xc9420ee9, 0x209c05a5, 0xeae9db8c),
       [0x060acc91, 0xb76320de, 0x5e541818, 0xd30d3049, 0x4dee2ad5, 0x6db89ec8, 0x9e15b22a, 0xcd1ce60e,
        0xc9171314, 0x321146ed, 0x99dd1130, 0x6e0c226a, 0xde8709d6, 0xb379abf9, 0x736afb96, 0x3baf53f6]) K_16_19 =
     ((0x98a03db9, 0x8c8d3692, 0xd0d79810, 0xfbc51307, 0x98406ae1, 0x0577364f, 0x4a3088bf, 0x98c5d829),
       [0x4dee2ad5, 0x6db89ec8, 0x9e15b22a, 0xcd1ce60e, 0xc9171314, 0x321146ed, 0x99dd1130, 0x6e0c226a,
        0xde8709d6, 0xb379abf9, 0x736afb96, 0x3baf53f6, 0xbe765066, 0xd23ba02a, 0x7446188d, 0x7f4c4245])"
  by (simp add: K_16_19_def sha_round_defs)

lemma rounds_nft2_b0_20:
  "foldl round256
     ((0x98a03db9, 0x8c8d3692, 0xd0d79810, 0xfbc51307, 0x98406ae1, 0x0577364f, 0x4a3088bf, 0x98c5d829),
       [0x4dee2ad5, 0x6db89ec8, 0x9e15b22a, 0xcd1ce60e, 0xc9171314, 0x321146ed, 0x99dd1130, 0x6e0c226a,
        0xde8709d6, 0xb379abf9, 0x736afb96, 0x3baf53f6, 0xbe765066, 0xd23ba02a, 0x7446188d, 0x7f4c4245]) K_20_23 =
     ((0x3d7a4331, 0x5304db39, 0xa7f56a01, 0xf50cb3d3, 0x40ae3a35, 0x3d957286, 0x8b2cff39, 0x4d3a5e3d),
       [0xc9171314, 0x321146ed, 0x99dd1130, 0x6e0c226a, 0xde8709d6, 0xb379abf9, 0x736afb96, 0x3baf53f6,
        0xbe765066, 0xd23ba02a, 0x7446188d, 0x7f4c4245, 0x8b905585, 0xb50d9861, 0x37cfad19, 0xff1ae3b6])"
  by (simp add: K_20_23_def sha_round_defs)

lemma rounds_nft2_b0_24:
  "foldl round256
     ((0x3d7a4331, 0x5304db39, 0xa7f56a01, 0xf50cb3d3, 0x40ae3a35, 0x3d957286, 0x8b2cff39, 0x4d3a5e3d),
       [0xc9171314, 0x321146ed, 0x99dd1130, 0x6e0c226a, 0xde8709d6, 0xb379abf9, 0x736afb96, 0x3baf53f6,
        0xbe765066, 0xd23ba02a, 0x7446188d, 0x7f4c4245, 0x8b905585, 0xb50d9861, 0x37cfad19, 0xff1ae3b6]) K_24_27 =
     ((0x6a29845b, 0x64ac416b, 0x611e35d9, 0xf61c7c5a, 0xe011b987, 0xb436c748, 0x63558074, 0xf3d92511),
       [0xde8709d6, 0xb379abf9, 0x736afb96, 0x3baf53f6, 0xbe765066, 0xd23ba02a, 0x7446188d, 0x7f4c4245,
        0x8b905585, 0xb50d9861, 0x37cfad19, 0xff1ae3b6, 0x4c124907, 0x0a2e04c3, 0x5860a618, 0x30b0404a])"
  by (simp add: K_24_27_def sha_round_defs)

lemma rounds_nft2_b0_28:
  "foldl round256
     ((0x6a29845b, 0x64ac416b, 0x611e35d9, 0xf61c7c5a, 0xe011b987, 0xb436c748, 0x63558074, 0xf3d92511),
       [0xde8709d6, 0xb379abf9, 0x736afb96, 0x3baf53f6, 0xbe765066, 0xd23ba02a, 0x7446188d, 0x7f4c4245,
        0x8b905585, 0xb50d9861, 0x37cfad19, 0xff1ae3b6, 0x4c124907, 0x0a2e04c3, 0x5860a618, 0x30b0404a]) K_28_31 =
     ((0x71043236, 0xc0872a28, 0xb469c64a, 0x22a1a6b8, 0xbcbca2b8, 0xcab2ed2c, 0xf6eadb7f, 0x5a51bfc5),
       [0xbe765066, 0xd23ba02a, 0x7446188d, 0x7f4c4245, 0x8b905585, 0xb50d9861, 0x37cfad19, 0xff1ae3b6,
        0x4c124907, 0x0a2e04c3, 0x5860a618, 0x30b0404a, 0x6b658c42, 0xafd7e1cf, 0x2a38bb3b, 0xe362fe17])"
  by (simp add: K_28_31_def sha_round_defs)

lemma rounds_nft2_b0_32:
  "foldl round256
     ((0x71043236, 0xc0872a28, 0xb469c64a, 0x22a1a6b8, 0xbcbca2b8, 0xcab2ed2c, 0xf6eadb7f, 0x5a51bfc5),
       [0xbe765066, 0xd23ba02a, 0x7446188d, 0x7f4c4245, 0x8b905585, 0xb50d9861, 0x37cfad19, 0xff1ae3b6,
        0x4c124907, 0x0a2e04c3, 0x5860a618, 0x30b0404a, 0x6b658c42, 0xafd7e1cf, 0x2a38bb3b, 0xe362fe17]) K_32_35 =
     ((0x06b34609, 0x1bb09608, 0x011c30ee, 0x0465ccf1, 0x018e0aef, 0x633ed25c, 0xc3de3905, 0x19c7f417),
       [0x8b905585, 0xb50d9861, 0x37cfad19, 0xff1ae3b6, 0x4c124907, 0x0a2e04c3, 0x5860a618, 0x30b0404a,
        0x6b658c42, 0xafd7e1cf, 0x2a38bb3b, 0xe362fe17, 0xbb7e8b69, 0xddd12dd5, 0xcf73dd68, 0xad1d389f])"
  by (simp add: K_32_35_def sha_round_defs)

lemma rounds_nft2_b0_36:
  "foldl round256
     ((0x06b34609, 0x1bb09608, 0x011c30ee, 0x0465ccf1, 0x018e0aef, 0x633ed25c, 0xc3de3905, 0x19c7f417),
       [0x8b905585, 0xb50d9861, 0x37cfad19, 0xff1ae3b6, 0x4c124907, 0x0a2e04c3, 0x5860a618, 0x30b0404a,
        0x6b658c42, 0xafd7e1cf, 0x2a38bb3b, 0xe362fe17, 0xbb7e8b69, 0xddd12dd5, 0xcf73dd68, 0xad1d389f]) K_36_39 =
     ((0x61e25223, 0x876053a7, 0x000fe8c0, 0xb55144b0, 0xe5a9a596, 0x255caae0, 0x9bb79a33, 0xf90a3b97),
       [0x4c124907, 0x0a2e04c3, 0x5860a618, 0x30b0404a, 0x6b658c42, 0xafd7e1cf, 0x2a38bb3b, 0xe362fe17,
        0xbb7e8b69, 0xddd12dd5, 0xcf73dd68, 0xad1d389f, 0x84669f73, 0xfa8ddf09, 0x829a2cbf, 0xa4508f35])"
  by (simp add: K_36_39_def sha_round_defs)

lemma rounds_nft2_b0_40:
  "foldl round256
     ((0x61e25223, 0x876053a7, 0x000fe8c0, 0xb55144b0, 0xe5a9a596, 0x255caae0, 0x9bb79a33, 0xf90a3b97),
       [0x4c124907, 0x0a2e04c3, 0x5860a618, 0x30b0404a, 0x6b658c42, 0xafd7e1cf, 0x2a38bb3b, 0xe362fe17,
        0xbb7e8b69, 0xddd12dd5, 0xcf73dd68, 0xad1d389f, 0x84669f73, 0xfa8ddf09, 0x829a2cbf, 0xa4508f35]) K_40_43 =
     ((0x939a922c, 0x089ecfa8, 0x418ccd64, 0x26216970, 0xf096bfb1, 0xe5ea2bb6, 0x528fb732, 0x19e54560),
       [0x6b658c42, 0xafd7e1cf, 0x2a38bb3b, 0xe362fe17, 0xbb7e8b69, 0xddd12dd5, 0xcf73dd68, 0xad1d389f,
        0x84669f73, 0xfa8ddf09, 0x829a2cbf, 0xa4508f35, 0x842d6c8b, 0x42321843, 0xa3d97d24, 0xeefb05df])"
  by (simp add: K_40_43_def sha_round_defs)

lemma rounds_nft2_b0_44:
  "foldl round256
     ((0x939a922c, 0x089ecfa8, 0x418ccd64, 0x26216970, 0xf096bfb1, 0xe5ea2bb6, 0x528fb732, 0x19e54560),
       [0x6b658c42, 0xafd7e1cf, 0x2a38bb3b, 0xe362fe17, 0xbb7e8b69, 0xddd12dd5, 0xcf73dd68, 0xad1d389f,
        0x84669f73, 0xfa8ddf09, 0x829a2cbf, 0xa4508f35, 0x842d6c8b, 0x42321843, 0xa3d97d24, 0xeefb05df]) K_44_47 =
     ((0xdd721955, 0x86666918, 0x027e89ca, 0x9575cf7b, 0xf99c16bb, 0xc69e13c7, 0x68b051e1, 0xda2ddfae),
       [0xbb7e8b69, 0xddd12dd5, 0xcf73dd68, 0xad1d389f, 0x84669f73, 0xfa8ddf09, 0x829a2cbf, 0xa4508f35,
        0x842d6c8b, 0x42321843, 0xa3d97d24, 0xeefb05df, 0x69e85722, 0x72bf6f90, 0x7c27b132, 0x287a4619])"
  by (simp add: K_44_47_def sha_round_defs)

lemma rounds_nft2_b0_48:
  "foldl round256
     ((0xdd721955, 0x86666918, 0x027e89ca, 0x9575cf7b, 0xf99c16bb, 0xc69e13c7, 0x68b051e1, 0xda2ddfae),
       [0xbb7e8b69, 0xddd12dd5, 0xcf73dd68, 0xad1d389f, 0x84669f73, 0xfa8ddf09, 0x829a2cbf, 0xa4508f35,
        0x842d6c8b, 0x42321843, 0xa3d97d24, 0xeefb05df, 0x69e85722, 0x72bf6f90, 0x7c27b132, 0x287a4619]) K_48_51 =
     ((0x28ca5278, 0x29bb1e41, 0x6636d8f4, 0x62ace21c, 0x4f5f028b, 0x449d58f2, 0xe68e9d38, 0xfc156d8f),
       [0x84669f73, 0xfa8ddf09, 0x829a2cbf, 0xa4508f35, 0x842d6c8b, 0x42321843, 0xa3d97d24, 0xeefb05df,
        0x69e85722, 0x72bf6f90, 0x7c27b132, 0x287a4619, 0x27c60cbc, 0x2c9b0a67, 0xeb0dc004, 0x4bd2e4a6])"
  by (simp add: K_48_51_def sha_round_defs)

lemma rounds_nft2_b0_52:
  "foldl round256
     ((0x28ca5278, 0x29bb1e41, 0x6636d8f4, 0x62ace21c, 0x4f5f028b, 0x449d58f2, 0xe68e9d38, 0xfc156d8f),
       [0x84669f73, 0xfa8ddf09, 0x829a2cbf, 0xa4508f35, 0x842d6c8b, 0x42321843, 0xa3d97d24, 0xeefb05df,
        0x69e85722, 0x72bf6f90, 0x7c27b132, 0x287a4619, 0x27c60cbc, 0x2c9b0a67, 0xeb0dc004, 0x4bd2e4a6]) K_52_55 =
     ((0xebe860e5, 0x203ea4dc, 0x693a02d0, 0x4b801693, 0xd6fad44b, 0xfba9278d, 0x3fc6b0e9, 0xd4b86bd0),
       [0x842d6c8b, 0x42321843, 0xa3d97d24, 0xeefb05df, 0x69e85722, 0x72bf6f90, 0x7c27b132, 0x287a4619,
        0x27c60cbc, 0x2c9b0a67, 0xeb0dc004, 0x4bd2e4a6, 0xcac51996, 0x8a0439cd, 0x36ef5a40, 0xc4c3a780])"
  by (simp add: K_52_55_def sha_round_defs)

lemma rounds_nft2_b0_56:
  "foldl round256
     ((0xebe860e5, 0x203ea4dc, 0x693a02d0, 0x4b801693, 0xd6fad44b, 0xfba9278d, 0x3fc6b0e9, 0xd4b86bd0),
       [0x842d6c8b, 0x42321843, 0xa3d97d24, 0xeefb05df, 0x69e85722, 0x72bf6f90, 0x7c27b132, 0x287a4619,
        0x27c60cbc, 0x2c9b0a67, 0xeb0dc004, 0x4bd2e4a6, 0xcac51996, 0x8a0439cd, 0x36ef5a40, 0xc4c3a780]) K_56_59 =
     ((0xd835a01d, 0x49145ed4, 0x408893b9, 0xe9fd837b, 0xc4e55ed6, 0x8fc3ba0f, 0xa81834f7, 0xefeca865),
       [0x69e85722, 0x72bf6f90, 0x7c27b132, 0x287a4619, 0x27c60cbc, 0x2c9b0a67, 0xeb0dc004, 0x4bd2e4a6,
        0xcac51996, 0x8a0439cd, 0x36ef5a40, 0xc4c3a780, 0x00011522, 0xd6b6d7ff, 0xfb570f1d, 0xc71c1bdd])"
  by (simp add: K_56_59_def sha_round_defs)

lemma rounds_nft2_b0_60:
  "foldl round256
     ((0xd835a01d, 0x49145ed4, 0x408893b9, 0xe9fd837b, 0xc4e55ed6, 0x8fc3ba0f, 0xa81834f7, 0xefeca865),
       [0x69e85722, 0x72bf6f90, 0x7c27b132, 0x287a4619, 0x27c60cbc, 0x2c9b0a67, 0xeb0dc004, 0x4bd2e4a6,
        0xcac51996, 0x8a0439cd, 0x36ef5a40, 0xc4c3a780, 0x00011522, 0xd6b6d7ff, 0xfb570f1d, 0xc71c1bdd]) K_60_63 =
     ((0xdbce57c2, 0xdcf9deaf, 0xcbe24938, 0x734a0dc1, 0xf2df7b20, 0x589205f7, 0x9868b32f, 0x74cf1fd5),
       [0x27c60cbc, 0x2c9b0a67, 0xeb0dc004, 0x4bd2e4a6, 0xcac51996, 0x8a0439cd, 0x36ef5a40, 0xc4c3a780,
        0x00011522, 0xd6b6d7ff, 0xfb570f1d, 0xc71c1bdd, 0x4f96b773, 0xbf838c88, 0x75097a97, 0xe00e488c])"
  by (simp add: K_60_63_def sha_round_defs)

lemma compress_nft2_b0:
  "compress
     (0x6a09e667, 0xbb67ae85, 0x3c6ef372, 0xa54ff53a, 0x510e527f, 0x9b05688c, 0x1f83d9ab, 0x5be0cd19)
     [0x7b226173, 0x73657422, 0x3a202277, 0x61746368, 0x222c2022, 0x6f776e65, 0x72223a20, 0x22626f62,
      0x222c2022, 0x73657269, 0x616c223a, 0x20225734, 0x3536227d, 0x80000000, 0x00000000, 0x000001a0] =
     (0x45d83e29, 0x98618d34, 0x08513caa, 0x189a02fb, 0x43edcd9f, 0xf3976e83, 0xb7ec8cda, 0xd0afecee)"
  by (simp add: compress_def K256_def
       rounds_nft2_b0_00 rounds_nft2_b0_04 rounds_nft2_b0_08 rounds_nft2_b0_12
       rounds_nft2_b0_16 rounds_nft2_b0_20 rounds_nft2_b0_24 rounds_nft2_b0_28
       rounds_nft2_b0_32 rounds_nft2_b0_36 rounds_nft2_b0_40 rounds_nft2_b0_44
       rounds_nft2_b0_48 rounds_nft2_b0_52 rounds_nft2_b0_56 rounds_nft2_b0_60)

lemma digest_nft2:
  "metadata_digest [(''owner'', ''bob''), (''asset'', ''watch''), (''serial'', ''W456'')] =
     ''45d83e2998618d3408513caa189a02fb43edcd9ff3976e83b7ec8cdad0afecee''"
  by (simp add: metadata_digest_def sha256_hexdigest_def sha256_def H0_def bytes_nft2 blocks_nft2
       compress_nft2_b0 hex32_def hexdigit_def)

text \<open>The digest of the metadata of \<open>nft3\<close>, block by block, four rounds at a time.\<close>

lemma bytes_nft3:
  "encode (json_dumps [(''owner'', ''carol''), (''asset'', ''car''), (''serial'', ''C789'')]) =
     [123, 34, 97, 115, 115, 101, 116, 34, 58, 32, 34, 99, 97, 114, 34, 44,
      32, 34, 111, 119, 110, 101, 114, 34, 58, 32, 34, 99, 97, 114, 111, 108,
      34, 44, 32, 34, 115, 101, 114, 105, 97, 108, 34, 58, 32, 34, 67, 55,
      56, 57, 34, 125]"
  by (simp add: json_dumps_def json_item_def json_string_def escape_char_def encode_def encode_char_def)

lemma blocks_nft3:
  "blocks (be32 (pad
     [123, 34, 97, 115, 115, 101, 116, 34, 58, 32, 34, 99, 97, 114, 34, 44,
      32, 34, 111, 119, 110, 101, 114, 34, 58, 32, 34, 99, 97, 114, 111, 108,
      34, 44, 32, 34, 115, 101, 114, 105, 97, 108, 34, 58, 32, 34, 67, 55,
      56, 57, 34, 125])) =
     [[0x7b226173, 0x73657422, 0x3a202263, 0x6172222c, 0x20226f77, 0x6e657222, 0x3a202263, 0x61726f6c,
       0x222c2022, 0x73657269, 0x616c223a, 0x20224337, 0x3839227d, 0x80000000, 0x00000000, 0x000001a0]]"
  by (simp add: pad_def be64_def replicate_numeral)

lemma rounds_nft3_b0_00:
  "foldl round256
     ((0x6a09e667, 0xbb67ae85, 0x3c6ef372, 0xa54ff53a, 0x510e527f, 0x9b05688c, 0x1f83d9ab, 0x5be0cd19),
       [0x7b226173, 0x73657422, 0x3a202263, 0x6172222c, 0x20226f77, 0x6e657222, 0x3a202263, 0x61726f6c,
        0x222c2022, 0x73657269, 0x616c223a, 0x20224337, 0x3839227d, 0x80000000, 0x00000000, 0x000001a0]) K_00_03 =
     ((0x6fd5aab0, 0x34113969, 0x3499cb8c, 0x772ae9c0, 0xe31d5d4c, 0x4305152b, 0xfd6ecd3e, 0x13ea4415),
       [0x20226f77, 0x6e657222, 0x3a202263, 0x61726f6c, 0x222c2022, 0x73657269, 0x616c223a, 0x20224337,
        0x3839227d, 0x80000000, 0x00000000, 0x000001a0, 0x060acc91, 0x9f5e20dc, 0x76853f6e, 0xdf9711ad])"
  by (simp add: K_00_03_def sha_round_defs)

lemma rounds_nft3_b0_04:
  "foldl round256
     ((0x6fd5aab0, 0x34113969, 0x3499cb8c, 0x772ae9c0, 0xe31d5d4c, 0x4305152b, 0xfd6ecd3e, 0x13ea4415),
       [0x20226f77, 0x6e657222, 0x3a202263, 0x61726f6c, 0x222c2022, 0x73657269, 0x616c223a, 0x20224337,
        0x3839227d, 0x80000000, 0x00000000, 0x000001a0, 0x060acc91, 0x9f5e20dc, 0x76853f6e, 0xdf9711ad]) K_04_07 =
     ((0x464fbe45, 0xbd2687bf, 0x63e24c11, 0x2ef83d36, 0x3d98a58f, 0xd003cb5f, 0xe6af3e36, 0x58b4a590),
       [0x222c2022, 0x73657269, 0x616c223a, 0x20224337, 0x3839227d, 0x80000000, 0x00000000, 0x000001a0,
        0x060acc91, 0x9f5e20dc, 0x76853f6e, 0xdf9711ad, 0xee02c38d, 0xa2e2ae9f, 0xc2e49fe3, 0xb23b2e52])"
  by (simp add: K_04_07_def sha_round_defs)

lemma rounds_nft3_b0_08:
  "foldl round256
     ((0x464fbe45, 0xbd2687bf, 0x63e24c11, 0x2ef83d36, 0x3d98a58f, 0xd003cb5f, 0xe6af3e36, 0x58b4a590),
       [0x222c2022, 0x73657269, 0x616c223a, 0x20224337, 0x3839227d, 0x80000000, 0x00000000, 0x000001a0,
        0x060acc91, 0x9f5e20dc, 0x76853f6e, 0xdf9711ad, 0xee02c38d, 0xa2e2ae9f, 0xc2e49fe3, 0xb23b2e52]) K_08_11 =
     ((0x5894575b, 0xac086e29, 0x36bfae0b, 0x6afa78af, 0x3431c9fc, 0xbee0c534, 0x360bc71a, 0x954b5edb),
       [0x3839227d, 0x80000000, 0x00000000, 0x000001a0, 0x060acc91, 0x9f5e20dc, 0x76853f6e, 0xdf9711ad,
        0xee02c38d, 0xa2e2ae9f, 0xc2e49fe3, 0xb23b2e52, 0x1dd79977, 0x4d1bf7c0, 0x7b1f1186, 0x4918889c])"
  by (simp add: K_08_11_def sha_round_defs)

lemma rounds_nft3_b0_12:
  "foldl round256
     ((0x5894575b, 0xac086e29, 0x36bfae0b, 0x6afa78af, 0x3431c9fc, 0xbee0c534, 0x360bc71a, 0x954b5edb),
       [0x3839227d, 0x80000000, 0x00000000, 0x000001a0, 0x060acc91, 0x9f5e20dc, 0x76853f6e, 0xdf9711ad,
        0xee02c38d, 0xa2e2ae9f, 0xc2e49fe3, 0xb23b2e52, 0x1dd79977, 0x4d1bf7c0, 0x7b1f1186, 0x4918889c]) K_12_15 =
     ((0xbc6df3fc, 0x57e344f2, 0x184a62fc, 0xc85f8f27, 0x7d3d5ce8, 0x7313c10f, 0x91d883c8, 0xb91addb5),
       [0x060acc91, 0x9f5e20dc, 0x76853f6e, 0xdf9711ad, 0xee02c38d, 0xa2e2ae9f, 0xc2e49fe3, 0xb23b2e52,
        0x1dd79977, 0x4d1bf7c0, 0x7b1f1186, 0x4918889c, 0x57092644, 0x98348b70, 0xaaa291b5, 0x84b0fade])"
  by (simp add: K_12_15_def sha_round_defs)

lemma rounds_nft3_b0_16:
  "foldl round256
     ((0xbc6df3fc, 0x57e344f2, 0x184a62fc, 0xc85f8f27, 0x7d3d5ce8, 0x7313c10f, 0x91d883c8, 0xb91addb5),
       [0x060acc91, 0x9f5e20dc, 0x76853f6e, 0xdf9711ad, 0xee02c38d, 0xa2e2ae9f, 0xc2e49fe3, 0xb23b2e52,
        0x1dd79977, 0x4d1bf7c0, 0x7b1f1186, 0x4918889c, 0x57092644, 0x98348b70, 0xaaa291b5, 0x84b0fade]) K_16_19 =
     ((0xe959f1ba, 0xe91a730b, 0xdb823ec8, 0x5b84ce52, 0xbe6f6bb7, 0x9d1b4858, 0x9c9c33f6, 0x00478d1c),
       [0xee02c38d, 0xa2e2ae9f, 0xc2e49fe3, 0xb23b2e52, 0x1dd79977, 0x4d1bf7c0, 0x7b1f1186, 0x4918889c,
        0x57092644, 0x98348b70, 0xaaa291b5, 0x84b0fade, 0x90cfec7f, 0x1a792184, 0x4f588d82, 0xa2936ea2])"
  by (simp add: K_16_19_def sha_round_defs)

lemma rounds_nft3_b0_20:
  "foldl round256
     ((0xe959f1ba, 0xe91a730b, 0xdb823ec8, 0x5b84ce52, 0xbe6f6bb7, 0x9d1b4858, 0x9c9c33f6, 0x00478d1c),
       [0xee02c38d, 0xa2e2ae9f, 0xc2e49fe3, 0xb23b2e52, 0x1dd79977, 0x4d1bf7c0, 0x7b1f1186, 0x4918889c,
        0x57092644, 0x98348b70, 0xaaa291b5, 0x84b0fade, 0x90cfec7f, 0x1a792184, 0x4f588d82, 0xa2936ea2]) K_20_23 =
     ((0x7743508d, 0xd11f525e, 0x83b6acca, 0x91ecd192, 0x72e64a44, 0x1c323746, 0xda3608b3, 0xb40f4f56),
       [0x1dd79977, 0x4d1bf7c0, 0x7b1f1186, 0x4918889c, 0x57092644, 0x98348b70, 0xaaa291b5, 0x84b0fade,
        0x90cfec7f, 0x1a792184, 0x4f588d82, 0xa2936ea2, 0x5e587f97, 0x20548c8e, 0xf07c2cd1, 0x26c6773d])"
  by (simp add: K_20_23_def sha_round_defs)

lemma rounds_nft3_b0_24:
  "foldl round256
     ((0x7743508d, 0xd11f525e, 0x83b6acca, 0x91ecd192, 0x72e64a44, 0x1c323746, 0xda3608b3, 0xb40f4f56),
       [0x1dd79977, 0x4d1bf7c0, 0x7b1f1186, 0x4918889c, 0x57092644, 0x98348b70, 0xaaa291b5, 0x84b0fade,
        0x90cfec7f, 0x1a792184, 0x4f588d82, 0xa2936ea2, 0x5e587f97, 0x20548c8e, 0xf07c2cd1, 0x26c6773d]) K_24_27 =
     ((0x389c8375, 0x8e7b1111, 0x37b577cb, 0xd4c8d1a1, 0x118f90dc, 0x416d455f, 0x0aa6be8b, 0xbea4f681),
       [0x57092644, 0x98348b70, 0xaaa291b5, 0x84b0fade, 0x90cfec7f, 0x1a792184, 0x4f588d82, 0xa2936ea2,
        0x5e587f97, 0x20548c8e, 0xf07c2cd1, 0x26c6773d, 0x40e8ee86, 0x59d94e3c, 0x9bcc84be, 0x021efcfd])"
  by (simp add: K_24_27_def sha_round_defs)

lemma rounds_nft3_b0_28:
  "foldl round256
     ((0x389c8375, 0x8e7b1111, 0x37b577cb, 0xd4c8d1a1, 0x118f90dc, 0x416d455f, 0x0aa6be8b, 0xbea4f681),
       [0x57092644, 0x98348b70, 0xaaa291b5, 0x84b0fade, 0x90cfec7f, 0x1a792184, 0x4f588d82, 0xa2936ea2,
        0x5e587f97, 0x20548c8e, 0xf07c2cd1, 0x26c6773d, 0x40e8ee86, 0x59d94e3c, 0x9bcc84be, 0x021efcfd]) K_28_31 =
     ((0xb0dd4cff, 0x5bb7971e, 0xbef07789, 0xfa07fcfc, 0xfe7e97c3, 0x1d6de398, 0x75f080f7, 0x68908a71),
       [0x90cfec7f, 0x1a792184, 0x4f588d82, 0xa2936ea2, 0x5e587f97, 0x20548c8e, 0xf07c2cd1, 0x26c6773d,
        0x40e8ee86, 0x59d94e3c, 0x9bcc84be, 0x021efcfd, 0x1b36ff05, 0x04fedcf1, 0x04f6cbb6, 0x91a90d1f])"
  by (simp add: K_28_31_def sha_round_defs)

lemma rounds_nft3_b0_32:
  "foldl round256
     ((0xb0dd4cff, 0x5bb7971e, 0xbef07789, 0xfa07fcfc, 0xfe7e97c3, 0x1d6de398, 0x75f080f7, 0x68908a71),
       [0x90cfec7f, 0x1a792184, 0x4f588d82, 0xa2936ea2, 0x5e587f97, 0x20548c8e, 0xf07c2cd1, 0x26c6773d,
        0x40e8ee86, 0x59d94e3c, 0x9bcc84be, 0x021efcfd, 0x1b36ff05, 0x04fedcf1, 0x04f6cbb6, 0x91a90d1f]) K_32_35 =
     ((0x8bd8f03b, 0x727d4e88, 0xe26a498d, 0xc1c05c50, 0xbc670f31, 0x4f98e211, 0xfbfe0aa7, 0x01d9d697),
       [0x5e587f97, 0x20548c8e, 0xf07c2cd1, 0x26c6773d, 0x40e8ee86, 0x59d94e3c, 0x9bcc84be, 0x021efcfd,
        0x1b36ff05, 0x04fedcf1, 0x04f6cbb6, 0x91a90d1f, 0xea710aff, 0x8b632a61, 0x80520260, 0xe8bb0259])"
  by (simp add: K_32_35_def sha_round_defs)

lemma rounds_nft3_b0_36:
  "foldl round256
     ((0x8bd8f03b, 0x727d4e88, 0xe26a498d, 0xc1c05c50, 0xbc670f31, 0x4f98e211, 0xfbfe0aa7, 0x01d9d697),
       [0x5e587f97, 0x20548c8e, 0xf07c2cd1, 0x26c6773d, 0x40e8ee86, 0x59d94e3c, 0x9bcc84be, 0x021efcfd,
        0x1b36ff05, 0x04fedcf1, 0x04f6cbb6, 0x91a90d1f, 0xea710aff, 0x8b632a61, 0x80520260, 0xe8bb0259]) K_36_39 =
     ((0x3cd399a8, 0xc2611c49, 0x0c06e095, 0x0b79298b, 0xa7a3ee47, 0xcd59fe14, 0x78d78411, 0xe9d6b06c),
       [0x40e8ee86, 0x59d94e3c, 0x9bcc84be, 0x021efcfd, 0x1b36ff05, 0x04fedcf1, 0x04f6cbb6, 0x91a90d1f,
        0xea710aff, 0x8b632a61, 0x80520260, 0xe8bb0259, 0xe01d51c8, 0xbd8441aa, 0x6864b101, 0xf94446d5])"
  by (simp add: K_36_39_def sha_round_defs)

lemma rounds_nft3_b0_40:
  "foldl round256
     ((0x3cd399a8, 0xc2611c49, 0x0c06e095, 0x0b79298b, 0xa7a3ee47, 0xcd59fe14, 0x78d78411, 0xe9d6b06c),
       [0x40e8ee86, 0x59d94e3c, 0x9bcc84be, 0x021efcfd, 0x1b36ff05, 0x04fedcf1, 0x04f6cbb6, 0x91a90d1f,
        0xea710aff, 0x8b632a61, 0x80520260, 0xe8bb0259, 0xe01d51c8, 0xbd8441aa, 0x6864b101, 0xf94446d5]) K_40_43 =
     ((0xd775e1c4, 0x028f88c6, 0xee47e09a, 0x4aca064c, 0xd0c90c57, 0xb56842e7, 0xa6c1bdff, 0xbdebf749),
       [0x1b36ff05, 0x04fedcf1, 0x04f6cbb6, 0x91a90d1f, 0xea710aff, 0x8b632a61, 0x80520260, 0xe8bb0259,
        0xe01d51c8, 0xbd8441aa, 0x6864b101, 0xf94446d5, 0xbb0e2626, 0xd51b12a4, 0xa1f97367, 0x8401fa82])"
  by (simp add: K_40_43_def sha_round_defs)

lemma rounds_nft3_b0_44:
  "foldl round256
     ((0xd775e1c4, 0x028f88c6, 0xee47e09a, 0x4aca064c, 0xd0c90c57, 0xb56842e7, 0xa6c1bdff, 0xbdebf749),
       [0x1b36ff05, 0x04fedcf1, 0x04f6cbb6, 0x91a90d1f, 0xea710aff, 0x8b632a61, 0x80520260, 0xe8bb0259,
        0xe01d51c8, 0xbd8441aa, 0x6864b101, 0xf94446d5, 0xbb0e2626, 0xd51b12a4, 0xa1f97367, 0x8401fa82]) K_44_47 =
     ((0x821f84a7, 0x7592288a, 0xd0510ce1, 0xc5025897, 0xf2ee4e83, 0x4ba7219a, 0xbaf44392, 0x5d07ad9a),
       [0xea710aff, 0x8b632a61, 0x80520260, 0xe8bb0259, 0xe01d51c8, 0xbd8441aa, 0x6864b101, 0xf94446d5,
        0xbb0e2626, 0xd51b12a4, 0xa1f97367, 0x8401fa82, 0xc65d0266, 0x0e0e56cc, 0x8ddad703, 0xce98726e])"
  by (simp add: K_44_47_def sha_round_defs)

lemma rounds_nft3_b0_48:
  "foldl round256
     ((0x821f84a7, 0x7592288a, 0xd0510ce1, 0xc5025897, 0xf2ee4e83, 0x4ba7219a, 0xbaf44392, 0x5d07ad9a),
       [0xea710aff, 0x8b632a61, 0x80520260, 0xe8bb0259, 0xe01d51c8, 0xbd8441aa, 0x6864b101, 0xf94446d5,
        0xbb0e2626, 0xd51b12a4, 0xa1f97367, 0x8401fa82, 0xc65d0266, 0x0e0e56cc, 0x8ddad703, 0xce98726e]) K_48_51 =
     ((0xfe5898fa, 0xdb35e1a6, 0x4bd037a6, 0xe0229ccb, 0x48ca2d51, 0x1f9cab42, 0xa7ea2e56, 0x196878e2),
       [0xe01d51c8, 0xbd8441aa, 0x6864b101, 0xf94446d5, 0xbb0e2626, 0xd51b12a4, 0xa1f97367, 0x8401fa82,
        0xc65d0266, 0x0e0e56cc, 0x8ddad703, 0xce98726e, 0x09b1a146, 0xb6387aa7, 0x572e12c9, 0xbaf45121])"
  by (simp add: K_48_51_def sha_round_defs)

lemma rounds_nft3_b0_52:
  "foldl round256
     ((0xfe5898fa, 0xdb35e1a6, 0x4bd037a6, 0xe0229ccb, 0x48ca2d51, 0x1f9cab42, 0xa7ea2e56, 0x196878e2),
       [0xe01d51c8, 0xbd8441aa, 0x6864b101, 0xf94446d5, 0xbb0e2626, 0xd51b12a4, 0xa1f97367, 0x8401fa82,
        0xc65d0266, 0x0e0e56cc, 0x8ddad703, 0xce98726e, 0x09b1a146, 0xb6387aa7, 0x572e12c9, 0xbaf45121]) K_52_55 =
     ((0xe43a7e04, 0xfee7ab74, 0x7c6d0f71, 0x61d98ca0, 0x6af1b973, 0xcd169ae5, 0xb19bd212, 0x4c8938c2),
       [0xbb0e2626, 0xd51b12a4, 0xa1f97367, 0x8401fa82, 0xc65d0266, 0x0e0e56cc, 0x8ddad703, 0xce98726e,
        0x09b1a146, 0xb6387aa7, 0x572e12c9, 0xbaf45121, 0x0bf52361, 0x11957538, 0x124afb41, 0xead3ce0b])"
  by (simp add: K_52_55_def sha_round_defs)

lemma rounds_nft3_b0_56:
  "foldl round256
     ((0xe43a7e04, 0xfee7ab74, 0x7c6d0f71, 0x61d98ca0, 0x6af1b973, 0xcd169ae5, 0xb19bd212, 0x4c8938c2),
       [0xbb0e2626, 0xd51b12a4, 0xa1f97367, 0x8401fa82, 0xc65d0266, 0x0e0e56cc, 0x8ddad703, 0xce98726e,
        0x09b1a146, 0xb6387aa7, 0x572e12c9, 0xbaf45121, 0x0bf52361, 0x11957538, 0x124afb41, 0xead3ce0b]) K_56_59 =
     ((0x059070a7, 0x9e12f4b7, 0x06b259fe, 0x0d9cbad4, 0xd14d61f3, 0x1104c960, 0xef349cb5, 0x52356a3e),
       [0xc65d0266, 0x0e0e56cc, 0x8ddad703, 0xce98726e, 0x09b1a146, 0xb6387aa7, 0x572e12c9, 0xbaf45121,
        0x0bf52361, 0x11957538, 0x124afb41, 0xead3ce0b, 0x2bb33bd6, 0x52ec9721, 0xc2b19e8e, 0xff3601d0])"
  by (simp add: K_56_59_def sha_round_defs)

lemma rounds_nft3_b0_60:
  "foldl round256
     ((0x059070a7, 0x9e12f4b7, 0x06b259fe, 0x0d9cbad4, 0xd14d61f3, 0x1104c960, 0xef349cb5, 0x52356a3e),
       [0xc65d0266, 0x0e0e56cc, 0x8ddad703, 0xce98726e, 0x09b1a146, 0xb6387aa7, 0x572e12c9, 0xbaf45121,
        0x0bf52361, 0x11957538, 0x124afb41, 0xead3ce0b, 0x2bb33bd6, 0x52ec9721, 0xc2b19e8e, 0xff3601d0]) K_60_63 =
     ((0xc43541ea, 0x188e204a, 0x55fbb8aa, 0x4c474d38, 0xb0042666, 0xb1feb3b7, 0xe8b44dac, 0x4db2ea99),
       [0x09b1a146, 0xb6387aa7, 0x572e12c9, 0xbaf45121, 0x0bf52361, 0x11957538, 0x124afb41, 0xead3ce0b,
        0x2bb33bd6, 0x52ec9721, 0xc2b19e8e, 0xff3601d0, 0xe10762fe, 0x84a70c42, 0xae9d1f98, 0x4748be4e])"
  by (simp add: K_60_63_def sha_round_defs)

lemma compress_nft3_b0:
  "compress
     (0x6a09e667, 0xbb67ae85, 0x3c6ef372, 0xa54ff53a, 0x510e527f, 0x9b05688c, 0x1f83d9ab, 0x5be0cd19)
     [0x7b226173, 0x73657422, 0x3a202263, 0x6172222c, 0x20226f77, 0x6e657222, 0x3a202263, 0x61726f6c,
      0x222c2022, 0x73657269, 0x616c223a, 0x20224337, 0x3839227d, 0x80000000, 0x00000000, 0x000001a0] =
     (0x2e3f2851, 0xd3f5cecf, 0x926aac1c, 0xf1974272, 0x011278e5, 0x4d041c43, 0x08382757, 0xa993b7b2)"
  by (simp add: compress_def K256_def
       rounds_nft3_b0_00 rounds_nft3_b0_04 rounds_nft3_b0_08 rounds_nft3_b0_12
       rounds_nft3_b0_16 rounds_nft3_b0_20 rounds_nft3_b0_24 rounds_nft3_b0_28
       rounds_nft3_b0_32 rounds_nft3_b0_36 rounds_nft3_b0_40 rounds_nft3_b0_44
       rounds_nft3_b0_48 rounds_nft3_b0_52 rounds_nft3_b0_56 rounds_nft3_b0_60)

lemma digest_nft3:
  "metadata_digest [(''owner'', ''carol''), (''asset'', ''car''), (''serial'', ''C789'')] =
     ''2e3f2851d3f5cecf926aac1cf1974272011278e54d041c4308382757a993b7b2''"
  by (simp add: metadata_digest_def sha256_hexdigest_def sha256_def H0_def bytes_nft3 blocks_nft3
       compress_nft3_b0 hex32_def hexdigit_def)


lemma signatures_initial_nfts:
  "map signature initial_nfts
     = [''d0a76e9bc65451f3661d36b980b0f0935a885a3e1d71444e334d107f693c0694'',
        ''45d83e2998618d3408513caa189a02fb43edcd9ff3976e83b7ec8cdad0afecee'',
        ''2e3f2851d3f5cecf926aac1cf1974272011278e54d041c4308382757a993b7b2'']"
  by (simp add: initial_nfts_def NFT_init_def digest_nft1 digest_nft2 digest_nft3)

lemma clean_initial_nfts: "clean initial_nfts"
proof -
  have "distinct (map signature initial_nfts)"
    unfolding signatures_initial_nfts by simp
  with initial_nfts_self_consistent show ?thesis
    by (simp add: clean_def)
qed

text \<open>
  C2. The three records that \<open>main\<close> constructs carry the signatures below (the values
  \<open>hashlib\<close> gives for the sorted JSON texts); each record is self-consistent and the
  three signatures differ, so the verifier returns \<open>True\<close> on them and prints nothing.
\<close>

theorem cross_verify_initial_nfts:
  "map token_id initial_nfts = [''nft1'', ''nft2'', ''nft3'']
   \<and> map signature initial_nfts
       = [''d0a76e9bc65451f3661d36b980b0f0935a885a3e1d71444e334d107f693c0694'',
          ''45d83e2998618d3408513caa189a02fb43edcd9ff3976e83b7ec8cdad0afecee'',
          ''2e3f2851d3f5cecf926aac1cf1974272011278e54d041c4308382757a993b7b2'']
   \<and> clean initial_nfts
   \<and> cross_verify_nfts initial_nfts w = (True, w)"
proof -
  have ids: "map token_id initial_nfts = [''nft1'', ''nft2'', ''nft3'']"
    by (simp add: initial_nfts_def NFT_init_def)
  have "cross_verify_nfts initial_nfts w = (True, w)"
    using clean_initial_nfts by (rule cross_verify_clean)
  with ids signatures_initial_nfts clean_initial_nfts show ?thesis
    by blast
qed

text \<open>
  Consequently \<open>main\<close> itself, whatever the random draws, runs all five cycles: the four
  stages are called five times in order and the loop ends because the range is exhausted.
\<close>

lemma main_cycle:
  assumes "store w = initial_nfts"
  shows "\<exists>w'. main_loop (\<lambda>cycle. cross_verify_nfts) draws (c # rest) w
                 = main_loop (\<lambda>cycle. cross_verify_nfts) draws rest w'
           \<and> store w' = initial_nfts
           \<and> stages w' = stages w @ [Sensing, Decision, Action, Heartbeat]
           \<and> heartbeats w' = heartbeats w @ [c]"
proof -
  have "cross_verify_nfts (store w) (print (CycleLine c) w) = (True, print (CycleLine c) w)"
    using assms clean_initial_nfts by (simp add: cross_verify_clean)
  from main_loop_step_ok
         [where verify = "\<lambda>cycle. cross_verify_nfts" and c = c and w = w and draws = draws
            and rest = rest, OF this]
  obtain w' where
    "main_loop (\<lambda>cycle. cross_verify_nfts) draws (c # rest) w
       = main_loop (\<lambda>cycle. cross_verify_nfts) draws rest w'"
    and "store w' = store (print (CycleLine c) w)"
    and "stages w' = stages (print (CycleLine c) w) @ [Sensing, Decision, Action, Heartbeat]"
    and "heartbeats w' = heartbeats (print (CycleLine c) w) @ [c]"
    by blast
  then have
    "main_loop (\<lambda>cycle. cross_verify_nfts) draws (c # rest) w
       = main_loop (\<lambda>cycle. cross_verify_nfts) draws rest w'
     \<and> store w' = initial_nfts
     \<and> stages w' = stages w @ [Sensing, Decision, Action, Heartbeat]
     \<and> heartbeats w' = heartbeats w @ [c]"
    using assms by (simp add: stages_print heartbeats_print store_print del: main_loop.simps)
  then show ?thesis ..
qed

theorem main_completes:
  "run_summary (main draws)
     = Some (Completed, concat (replicate 5 [Sensing, Decision, Action, Heartbeat]), [1, 2, 3, 4, 5])"
proof -
  let ?v = "\<lambda>cycle::nat. cross_verify_nfts"
  let ?w0 = "\<lparr>store = initial_nfts, trace = []\<rparr>"
  have st0: "store ?w0 = initial_nfts"
    by simp
  obtain w1 where r1: "main_loop ?v draws [1, 2, 3, 4, 5] ?w0 = main_loop ?v draws [2, 3, 4, 5] w1"
    and st1: "store w1 = initial_nfts"
    and s1: "stages w1 = stages ?w0 @ [Sensing, Decision, Action, Heartbeat]"
    and h1: "heartbeats w1 = heartbeats ?w0 @ [1]"
    using main_cycle [where w = ?w0 and c = 1 and draws = draws and rest = "[2, 3, 4, 5]", OF st0]
    by blast
  obtain w2 where r2: "main_loop ?v draws [2, 3, 4, 5] w1 = main_loop ?v draws [3, 4, 5] w2"
    and st2: "store w2 = initial_nfts"
    and s2: "stages w2 = stages w1 @ [Sensing, Decision, Action, Heartbeat]"
    and h2: "heartbeats w2 = heartbeats w1 @ [2]"
    using main_cycle [where w = w1 and c = 2 and draws = draws and rest = "[3, 4, 5]", OF st1]
    by blast
  obtain w3 where r3: "main_loop ?v draws [3, 4, 5] w2 = main_loop ?v draws [4, 5] w3"
    and st3: "store w3 = initial_nfts"
    and s3: "stages w3 = stages w2 @ [Sensing, Decision, Action, Heartbeat]"
    and h3: "heartbeats w3 = heartbeats w2 @ [3]"
    using main_cycle [where w = w2 and c = 3 and draws = draws and rest = "[4, 5]", OF st2]
    by blast
  obtain w4 where r4: "main_loop ?v draws [4, 5] w3 = main_loop ?v draws [5] w4"
    and st4: "store w4 = initial_nfts"
    and s4: "stages w4 = stages w3 @ [Sensing, Decision, Action, Heartbeat]"
    and h4: "heartbeats w4 = heartbeats w3 @ [4]"
    using main_cycle [where w = w3 and c = 4 and draws = draws and rest = "[5]", OF st3]
    by blast
  obtain w5 where r5: "main_loop ?v draws [5] w4 = main_loop ?v draws [] w5"
    and s5: "stages w5 = stages w4 @ [Sensing, Decision, Action, Heartbeat]"
    and h5: "heartbeats w5 = heartbeats w4 @ [5]"
    using main_cycle [where w = w4 and c = 5 and draws = draws and rest = "[]", OF st4]
    by blast
  have "main draws = Inr (Completed, w5)"
    unfolding main_def orchestrator_def cycle_range
    by (simp only: r1 r2 r3 r4 r5 main_loop.simps(1))
  moreover have "stages w5 = concat (replicate 5 [Sensing, Decision, Action, Heartbeat])"
    by (simp add: s5 s4 s3 s2 s1 stages_initial numeral_eq_Suc)
  moreover have "heartbeats w5 = [1, 2, 3, 4, 5]"
    by (simp add: h5 h4 h3 h2 h1 heartbeats_initial)
  ultimately show ?thesis
    by (simp add: run_summary_def)
qed


end
